theory Spec2Isabelle
  imports Main "HOL-Library.Word" "HOL-Library.Multiset"
begin

text \<open>
  The ingestion of GPS tables of geo-chrono: the point collection of package \<^verbatim>\<open>gps\<close>
  (\<^verbatim>\<open>SortByTimestamp\<close>, \<^verbatim>\<open>RemoveDuplicates\<close>, \<^verbatim>\<open>TimeRange\<close>) and the reader of package \<^verbatim>\<open>csv\<close>
  (\<^verbatim>\<open>parseRecords\<close>, \<^verbatim>\<open>findColumnIndices\<close>, \<^verbatim>\<open>matchesColumn\<close>, \<^verbatim>\<open>parseRecord\<close>,
  \<^verbatim>\<open>parseTimestamp\<close>, \<^verbatim>\<open>parseDefaultTimestamp\<close>), as functions on lists. Errors are values:
  a function that returns \<^verbatim>\<open>(T, error)\<close> returns \<open>error + T\<close> here.
\<close>

section \<open>The standard library, as the code sees it\<close>

text \<open>
  A \<^verbatim>\<open>time.Time\<close> is read by the code only through \<^verbatim>\<open>Before\<close> and \<^verbatim>\<open>After\<close>, which compare
  the instant: seconds since January 1 of year 1, then nanoseconds within the second.
  The location pointer is never read and is left out. The zero value \<^verbatim>\<open>time.Time{}\<close> has
  both fields zero.
\<close>

datatype Time = Time (t_sec: int) (t_nsec: int)

definition zeroTime :: Time where
  "zeroTime = Time 0 0"

definition Before :: "Time \<Rightarrow> Time \<Rightarrow> bool" where
  "Before t u = (t_sec t < t_sec u \<or> t_sec t = t_sec u \<and> t_nsec t < t_nsec u)"

definition After :: "Time \<Rightarrow> Time \<Rightarrow> bool" where
  "After t u = (t_sec t > t_sec u \<or> t_sec t = t_sec u \<and> t_nsec t > t_nsec u)"

text \<open>A \<^verbatim>\<open>float64\<close> is its 64 bits; the code does no arithmetic on it in the parts modelled.\<close>

type_synonym float64 = "64 word"

text \<open>The struct \<^verbatim>\<open>gps.Point\<close> and the slice type \<^verbatim>\<open>gps.Points\<close>.\<close>

record Point =
  Timestamp :: Time
  Latitude :: float64
  Longitude :: float64
  Title :: string
  Description :: string

type_synonym Points = "Point list"

text \<open>
  The library functions the code calls are parameters of the model: every theorem below
  holds whatever they compute. \<open>None\<close> stands for a non-nil \<^verbatim>\<open>error\<close>.
  \<^item> \<open>strings_ToLower\<close>, \<open>strings_TrimSpace\<close>: \<^verbatim>\<open>strings.ToLower\<close>, \<^verbatim>\<open>strings.TrimSpace\<close>;
  \<^item> \<open>time_Parse layout value\<close>: \<^verbatim>\<open>time.Parse(layout, value)\<close>;
  \<^item> \<open>time_Unix sec\<close>: \<^verbatim>\<open>time.Unix(sec, 0)\<close>;
  \<^item> \<open>strconv_ParseInt s\<close>: \<^verbatim>\<open>strconv.ParseInt(s, 10, 64)\<close>, an \<^verbatim>\<open>int64\<close>;
  \<^item> \<open>strconv_ParseFloat s\<close>: \<^verbatim>\<open>strconv.ParseFloat(s, 64)\<close>;
  \<^item> \<open>fmt_6f x\<close>: what \<^verbatim>\<open>fmt.Sprintf\<close> writes for the verb \<^verbatim>\<open>%.6f\<close> at \<open>x\<close>;
  \<^item> \<open>sort_Slice less x\<close>: the contents of the slice \<open>x\<close> after \<^verbatim>\<open>sort.Slice(x, less)\<close>, with
    \<open>less\<close> read on the elements.
\<close>

record golib =
  strings_ToLower :: "string \<Rightarrow> string"
  strings_TrimSpace :: "string \<Rightarrow> string"
  time_Parse :: "string \<Rightarrow> string \<Rightarrow> Time option"
  time_Unix :: "64 word \<Rightarrow> Time"
  strconv_ParseInt :: "string \<Rightarrow> 64 word option"
  strconv_ParseFloat :: "string \<Rightarrow> float64 option"
  fmt_6f :: "float64 \<Rightarrow> string"
  sort_Slice :: "(Point \<Rightarrow> Point \<Rightarrow> bool) \<Rightarrow> Points \<Rightarrow> Points"

section \<open>Package gps: operations on collections\<close>

subsection \<open>RemoveDuplicates\<close>

text \<open>The key of a point: \<^verbatim>\<open>fmt.Sprintf("%.6f,%.6f", point.Latitude, point.Longitude)\<close>.\<close>

definition coordKey :: "golib \<Rightarrow> Point \<Rightarrow> string" where
  "coordKey L point = fmt_6f L (Latitude point) @ '','' @ fmt_6f L (Longitude point)"

text \<open>Reading a \<^verbatim>\<open>map[string]bool\<close> at an absent key gives \<^verbatim>\<open>false\<close>.\<close>

definition seen_at :: "(string \<rightharpoonup> bool) \<Rightarrow> string \<Rightarrow> bool" where
  "seen_at seen key = (case seen key of None \<Rightarrow> False | Some b \<Rightarrow> b)"

fun RemoveDuplicates_loop :: "golib \<Rightarrow> Points \<Rightarrow> (string \<rightharpoonup> bool) \<Rightarrow> Points \<Rightarrow> Points" where
  "RemoveDuplicates_loop L [] seen result = result"
| "RemoveDuplicates_loop L (point # rest) seen result =
     (let key = coordKey L point in
      if \<not> seen_at seen key
      then RemoveDuplicates_loop L rest (seen(key \<mapsto> True)) (result @ [point])
      else RemoveDuplicates_loop L rest seen result)"

definition RemoveDuplicates :: "golib \<Rightarrow> Points \<Rightarrow> Points" where
  "RemoveDuplicates L p = RemoveDuplicates_loop L p Map.empty []"

subsection \<open>TimeRange\<close>

fun TimeRange_loop :: "Points \<Rightarrow> Time \<Rightarrow> Time \<Rightarrow> Time \<times> Time" where
  "TimeRange_loop [] startT endT = (startT, endT)"
| "TimeRange_loop (point # rest) startT endT =
     TimeRange_loop rest
       (if Before (Timestamp point) startT then Timestamp point else startT)
       (if After (Timestamp point) endT then Timestamp point else endT)"

definition TimeRange :: "Points \<Rightarrow> Time \<times> Time" where
  "TimeRange p =
     (case p of
        [] \<Rightarrow> (zeroTime, zeroTime)
      | p0 # rest \<Rightarrow> TimeRange_loop rest (Timestamp p0) (Timestamp p0))"

subsection \<open>SortByTimestamp\<close>

text \<open>
  The method sorts the slice in place with \<^verbatim>\<open>sort.Slice\<close> and the comparison
  \<^verbatim>\<open>p[i].Timestamp.Before(p[j].Timestamp)\<close>; the model returns the new contents.
\<close>

definition SortByTimestamp :: "golib \<Rightarrow> Points \<Rightarrow> Points" where
  "SortByTimestamp L p = sort_Slice L (\<lambda>a b. Before (Timestamp a) (Timestamp b)) p"

text \<open>
  What the library's documentation asks of a comparison (\<^verbatim>\<open>sort.Interface\<close>, method
  \<^verbatim>\<open>Less\<close>): a transitive ordering, that is, if \<open>less i j\<close> and \<open>less j k\<close> then \<open>less i k\<close>,
  and if neither \<open>less i j\<close> nor \<open>less j k\<close> then not \<open>less i k\<close>. \<^verbatim>\<open>Less\<close> reports whether
  an element must sort before another, so no element is less than itself.
\<close>

definition transitiveOrdering :: "('a \<Rightarrow> 'a \<Rightarrow> bool) \<Rightarrow> bool" where
  "transitiveOrdering lt =
     ((\<forall>i. \<not> lt i i) \<and>
      (\<forall>i j k. lt i j \<and> lt j k \<longrightarrow> lt i k) \<and>
      (\<forall>i j k. \<not> lt i j \<and> \<not> lt j k \<longrightarrow> \<not> lt i k))"

text \<open>
  What the documentation of \<^verbatim>\<open>sort.Slice\<close> promises: the slice is sorted as \<open>less\<close> says,
  and sorting only moves elements. It adds: the sort is not guaranteed to be stable, equal
  elements may be reversed from their original order.
\<close>

definition sort_Slice_contract :: "golib \<Rightarrow> bool" where
  "sort_Slice_contract L =
     (\<forall>lt x. mset (sort_Slice L lt x) = mset x \<and>
        (transitiveOrdering lt \<longrightarrow> sorted_wrt (\<lambda>a b. \<not> lt b a) (sort_Slice L lt x)))"

section \<open>Package config: the fields the reader uses\<close>

text \<open>
  Of \<^verbatim>\<open>CSVFormatConfig\<close> the fields \<^verbatim>\<open>CategoryColumn\<close> and \<^verbatim>\<open>Delimiter\<close>, and of
  \<^verbatim>\<open>ProcessingConfig\<close> the fields \<^verbatim>\<open>MinDistanceFilter\<close>, \<^verbatim>\<open>SmoothPath\<close>, \<^verbatim>\<open>MaxSpeedFilter\<close>
  and \<^verbatim>\<open>Timezone\<close>, are not read by the functions modelled and are left out. The field
  \<^verbatim>\<open>RemoveDuplicates\<close> is \<open>proc_RemoveDuplicates\<close> here, the method keeps the name.
\<close>

record CSVFormatConfig =
  TimestampColumn :: string
  LatitudeColumn :: string
  LongitudeColumn :: string
  TitleColumn :: string
  DescriptionColumn :: string
  HasHeader :: bool
  SkipRows :: int

record ProcessingConfig =
  proc_RemoveDuplicates :: bool
  TimestampFormats :: "string list"

section \<open>Package csv: the reader\<close>

text \<open>
  The errors of the reader, one constructor for each message the code formats, and the
  run-time panic of an index out of range.
  \<^item> \<open>NoDataRows\<close>: "CSV file has no data rows";
  \<^item> \<open>NoHeaderAndDataRow\<close>: "CSV file must have at least a header and one data row";
  \<^item> \<open>MissingRequiredColumn\<close>: "CSV must contain timestamp, latitude, and longitude columns";
  \<^item> \<open>InsufficientColumns\<close>: "insufficient columns";
  \<^item> \<open>InvalidTimestamp text cause\<close>: "invalid timestamp '...': ...";
  \<^item> \<open>InvalidLatitude text\<close>, \<open>InvalidLongitude text\<close>: "invalid latitude '...': ..." and
    "invalid longitude '...': ...";
  \<^item> \<open>UnparseableTimestamp text\<close>: "cannot parse timestamp format: ...".
\<close>

datatype error =
    NoDataRows
  | NoHeaderAndDataRow
  | MissingRequiredColumn
  | InsufficientColumns
  | InvalidTimestamp string error
  | InvalidLatitude string
  | InvalidLongitude string
  | UnparseableTimestamp string
  | IndexOutOfRangePanic

text \<open>The two messages about too few rows are one condition in the specification.\<close>

definition EmptyOrInsufficientData :: "error \<Rightarrow> bool" where
  "EmptyOrInsufficientData e = (e = NoDataRows \<or> e = NoHeaderAndDataRow)"

record columnIndices =
  timestamp :: int
  latitude :: int
  longitude :: int
  title :: int
  description :: int

subsection \<open>matchesColumn and findColumnIndices\<close>

fun matchesDefaults :: "string \<Rightarrow> string list \<Rightarrow> bool" where
  "matchesDefaults colName [] = False"
| "matchesDefaults colName (defaultName # rest) =
     (if colName = defaultName then True else matchesDefaults colName rest)"

definition matchesColumn :: "golib \<Rightarrow> string \<Rightarrow> string \<Rightarrow> string list \<Rightarrow> bool" where
  "matchesColumn L colName configName defaults =
     (if configName \<noteq> [] then colName = strings_ToLower L configName
      else matchesDefaults colName defaults)"

text \<open>The body of the loop over the header, at position \<open>i\<close> and cell \<open>col\<close>.\<close>

definition headerCell :: "golib \<Rightarrow> CSVFormatConfig \<Rightarrow> int \<Rightarrow> string \<Rightarrow> columnIndices \<Rightarrow> columnIndices" where
  "headerCell L cfg i col indices =
     (let colLower = strings_ToLower L col;
          i1 = (if matchesColumn L colLower (TimestampColumn cfg) [''timestamp'', ''time'', ''datetime'']
                then indices\<lparr>timestamp := i\<rparr> else indices);
          i2 = (if matchesColumn L colLower (LatitudeColumn cfg) [''latitude'', ''lat'']
                then i1\<lparr>latitude := i\<rparr> else i1);
          i3 = (if matchesColumn L colLower (LongitudeColumn cfg) [''longitude'', ''lon'', ''lng'']
                then i2\<lparr>longitude := i\<rparr> else i2);
          i4 = (if TitleColumn cfg \<noteq> [] \<and> colLower = strings_ToLower L (TitleColumn cfg)
                then i3\<lparr>title := i\<rparr> else i3);
          i5 = (if DescriptionColumn cfg \<noteq> [] \<and> colLower = strings_ToLower L (DescriptionColumn cfg)
                then i4\<lparr>description := i\<rparr> else i4)
      in i5)"

fun headerLoop :: "golib \<Rightarrow> CSVFormatConfig \<Rightarrow> int \<Rightarrow> string list \<Rightarrow> columnIndices \<Rightarrow> columnIndices" where
  "headerLoop L cfg i [] indices = indices"
| "headerLoop L cfg i (col # rest) indices =
     headerLoop L cfg (i + 1) rest (headerCell L cfg i col indices)"

definition noIndices :: columnIndices where
  "noIndices = \<lparr>timestamp = - 1, latitude = - 1, longitude = - 1, title = - 1, description = - 1\<rparr>"

text \<open>The positions assumed when there is no header.\<close>

definition positionalIndices :: "string list list \<Rightarrow> columnIndices" where
  "positionalIndices records =
     (let i1 = noIndices\<lparr>timestamp := 0, latitude := 1, longitude := 2\<rparr>;
          i2 = (if length records > 0 \<and> length (records ! 0) > 3 then i1\<lparr>title := 3\<rparr> else i1);
          i3 = (if length records > 0 \<and> length (records ! 0) > 4 then i2\<lparr>description := 4\<rparr> else i2)
      in i3)"

definition findColumnIndices :: "golib \<Rightarrow> CSVFormatConfig \<Rightarrow> string list list \<Rightarrow> error + columnIndices" where
  "findColumnIndices L cfg records =
     (let indices = (if HasHeader cfg \<and> length records > 0
                     then headerLoop L cfg 0 (records ! 0) noIndices
                     else positionalIndices records)
      in if timestamp indices = - 1 \<or> latitude indices = - 1 \<or> longitude indices = - 1
         then Inl MissingRequiredColumn
         else Inr indices)"

subsection \<open>parseTimestamp and parseDefaultTimestamp\<close>

text \<open>The loop \<^verbatim>\<open>for _, format := range formats\<close>: the first layout that parses returns.\<close>

fun tryFormats :: "golib \<Rightarrow> string list \<Rightarrow> string \<Rightarrow> Time option" where
  "tryFormats L [] s = None"
| "tryFormats L (format # rest) s =
     (case time_Parse L format s of Some t \<Rightarrow> Some t | None \<Rightarrow> tryFormats L rest s)"

definition defaultFormats :: "string list" where
  "defaultFormats =
     [''2006-01-02T15:04:05Z'',
      ''2006-01-02T15:04:05-07:00'',
      ''2006-01-02 15:04:05'',
      ''01/02/2006 15:04:05'',
      ''02/01/2006 15:04:05'',
      ''2006-01-02T15:04:05.000Z'',
      ''2006-01-02'']"

definition parseDefaultTimestamp :: "golib \<Rightarrow> string \<Rightarrow> error + Time" where
  "parseDefaultTimestamp L s =
     (case tryFormats L defaultFormats s of
        Some t \<Rightarrow> Inr t
      | None \<Rightarrow>
          (case strconv_ParseInt L s of
             Some unix \<Rightarrow> Inr (time_Unix L unix)
           | None \<Rightarrow> Inl (UnparseableTimestamp s)))"

definition parseTimestamp :: "golib \<Rightarrow> ProcessingConfig \<Rightarrow> string \<Rightarrow> error + Time" where
  "parseTimestamp L proc s0 =
     (let s = strings_TrimSpace L s0 in
      case tryFormats L (TimestampFormats proc) s of
        Some t \<Rightarrow> Inr t
      | None \<Rightarrow> parseDefaultTimestamp L s)"

subsection \<open>parseRecord\<close>

text \<open>Reading \<^verbatim>\<open>record[i]\<close>: the run-time panics when \<open>i\<close> is not a position of the row.\<close>

definition cell :: "string list \<Rightarrow> int \<Rightarrow> error + string" where
  "cell row i = (if 0 \<le> i \<and> i < int (length row) then Inr (row ! nat i) else Inl IndexOutOfRangePanic)"

text \<open>The optional fields: the trimmed cell when the index is set and in the row, else empty.\<close>

definition optionalCell :: "golib \<Rightarrow> string list \<Rightarrow> int \<Rightarrow> error + string" where
  "optionalCell L row i =
     (if i \<noteq> - 1 \<and> i < int (length row)
      then (case cell row i of Inl e \<Rightarrow> Inl e | Inr text \<Rightarrow> Inr (strings_TrimSpace L text))
      else Inr [])"

definition parseRecord :: "golib \<Rightarrow> ProcessingConfig \<Rightarrow> string list \<Rightarrow> columnIndices \<Rightarrow> int \<Rightarrow> error + Point" where
  "parseRecord L proc row indices rowNum =
     (if int (length row) \<le> timestamp indices \<or> int (length row) \<le> latitude indices
         \<or> int (length row) \<le> longitude indices
      then Inl InsufficientColumns
      else
        case cell row (timestamp indices) of Inl e \<Rightarrow> Inl e | Inr tsText \<Rightarrow>
        (case parseTimestamp L proc tsText of Inl err \<Rightarrow> Inl (InvalidTimestamp tsText err) | Inr ts \<Rightarrow>
        (case cell row (latitude indices) of Inl e \<Rightarrow> Inl e | Inr latText \<Rightarrow>
        (case strconv_ParseFloat L (strings_TrimSpace L latText) of
           None \<Rightarrow> Inl (InvalidLatitude latText) | Some lat \<Rightarrow>
        (case cell row (longitude indices) of Inl e \<Rightarrow> Inl e | Inr lngText \<Rightarrow>
        (case strconv_ParseFloat L (strings_TrimSpace L lngText) of
           None \<Rightarrow> Inl (InvalidLongitude lngText) | Some lng \<Rightarrow>
        (case optionalCell L row (title indices) of Inl e \<Rightarrow> Inl e | Inr ttl \<Rightarrow>
        (case optionalCell L row (description indices) of Inl e \<Rightarrow> Inl e | Inr desc \<Rightarrow>
           Inr \<lparr>Timestamp = ts, Latitude = lat, Longitude = lng,
                Title = ttl, Description = desc\<rparr>))))))))"

subsection \<open>parseRecords\<close>

text \<open>
  The first statement: rows are skipped only when the count is positive and smaller than
  the number of rows.
\<close>

definition skipRows :: "CSVFormatConfig \<Rightarrow> string list list \<Rightarrow> string list list" where
  "skipRows cfg records =
     (if SkipRows cfg > 0 \<and> int (length records) > SkipRows cfg
      then drop (nat (SkipRows cfg)) records
      else records)"

text \<open>
  The loop over the data rows. A row whose \<open>parseRecord\<close> returns an error is skipped (the
  warning printed is not modelled); a panic ends the run.
\<close>

fun parseRows :: "golib \<Rightarrow> ProcessingConfig \<Rightarrow> columnIndices \<Rightarrow> int \<Rightarrow> string list list \<Rightarrow> Points \<Rightarrow> error + Points" where
  "parseRows L proc colIndices rowNum [] points = Inr points"
| "parseRows L proc colIndices rowNum (row # rest) points =
     (case parseRecord L proc row colIndices rowNum of
        Inl err \<Rightarrow>
          (if err = IndexOutOfRangePanic then Inl IndexOutOfRangePanic
           else parseRows L proc colIndices (rowNum + 1) rest points)
      | Inr point \<Rightarrow> parseRows L proc colIndices (rowNum + 1) rest (points @ [point]))"

definition parseRecords :: "golib \<Rightarrow> CSVFormatConfig \<Rightarrow> ProcessingConfig \<Rightarrow> string list list \<Rightarrow> error + Points" where
  "parseRecords L cfg proc records0 =
     (let records = skipRows cfg records0 in
      if length records < 1 then Inl NoDataRows
      else if HasHeader cfg \<and> length records < 2 then Inl NoHeaderAndDataRow
      else
        let startRow = (if HasHeader cfg then 1 else 0) in
        case findColumnIndices L cfg records of
          Inl err \<Rightarrow> Inl err
        | Inr colIndices \<Rightarrow>
            (case parseRows L proc colIndices (int startRow + 1) (drop startRow records) [] of
               Inl err \<Rightarrow> Inl err
             | Inr points \<Rightarrow>
                 Inr (if proc_RemoveDuplicates proc then RemoveDuplicates L points else points)))"

section \<open>The specification's notions\<close>

text \<open>
  Keeping the first element of each key, with the keys in \<open>S\<close> taken as seen already: the
  reading of "keeps the first occurrence of each distinct key, drops subsequent ones".
\<close>

fun keepFirst :: "('a \<Rightarrow> 'k) \<Rightarrow> 'k set \<Rightarrow> 'a list \<Rightarrow> 'a list" where
  "keepFirst f S [] = []"
| "keepFirst f S (x # xs) =
     (if f x \<in> S then keepFirst f S xs else x # keepFirst f (insert (f x) S) xs)"

text \<open>
  A header cell matches a required field case-insensitively: against the configured name
  when one is set, otherwise against the field's default alias list. An optional field has
  no aliases and matches only a configured name.
\<close>

definition headerMatches :: "golib \<Rightarrow> string \<Rightarrow> string list \<Rightarrow> string \<Rightarrow> bool" where
  "headerMatches L configName aliases col =
     (if configName \<noteq> [] then strings_ToLower L col = strings_ToLower L configName
      else strings_ToLower L col \<in> set aliases)"

definition optionalMatches :: "golib \<Rightarrow> string \<Rightarrow> string \<Rightarrow> bool" where
  "optionalMatches L configName col =
     (configName \<noteq> [] \<and> strings_ToLower L col = strings_ToLower L configName)"

text \<open>
  Position \<open>i\<close> is the last matching cell of a header: a cell is there, it matches, and no
  cell after it does.
\<close>

definition lastMatch :: "('a \<Rightarrow> bool) \<Rightarrow> 'a list \<Rightarrow> int \<Rightarrow> bool" where
  "lastMatch M cells i =
     (0 \<le> i \<and> nat i < length cells \<and> M (cells ! nat i)
      \<and> list_all (\<lambda>c. \<not> M c) (drop (Suc (nat i)) cells))"

definition timestampAliases :: "string list" where
  "timestampAliases = [''timestamp'', ''time'', ''datetime'']"

definition latitudeAliases :: "string list" where
  "latitudeAliases = [''latitude'', ''lat'']"

definition longitudeAliases :: "string list" where
  "longitudeAliases = [''longitude'', ''lon'', ''lng'']"

text \<open>
  The fallback chain in the order the specification states it: ISO-8601 with Z, ISO-8601
  with a numeric offset, date and time separated by a space, month/day/year with time,
  day/month/year with time, ISO-8601 with fractional seconds and Z, date only.
\<close>

definition fallbackChain :: "string list" where
  "fallbackChain =
     [''2006-01-02T15:04:05Z'',
      ''2006-01-02T15:04:05-07:00'',
      ''2006-01-02 15:04:05'',
      ''01/02/2006 15:04:05'',
      ''02/01/2006 15:04:05'',
      ''2006-01-02T15:04:05.000Z'',
      ''2006-01-02'']"

text \<open>
  The attempts on a trimmed token, in order: each custom format, each format of the
  fallback chain, then the token as epoch seconds. The first success wins.
\<close>

definition timestampAttempts :: "golib \<Rightarrow> ProcessingConfig \<Rightarrow> string \<Rightarrow> Time option list" where
  "timestampAttempts L proc s =
     map (\<lambda>format. time_Parse L format s) (TimestampFormats proc)
     @ map (\<lambda>format. time_Parse L format s) fallbackChain
     @ [map_option (time_Unix L) (strconv_ParseInt L s)]"

fun firstSuccess :: "'a option list \<Rightarrow> 'a option" where
  "firstSuccess [] = None"
| "firstSuccess (a # rest) = (case a of Some t \<Rightarrow> Some t | None \<Rightarrow> firstSuccess rest)"

text \<open>
  The data rows of a table (after the skip, and after the header when one is declared),
  the rows among them that pass record validation, and their points. The row number only
  labels the warning, so any number serves.
\<close>

definition dataRows :: "CSVFormatConfig \<Rightarrow> string list list \<Rightarrow> string list list" where
  "dataRows cfg records = drop (if HasHeader cfg then 1 else 0) (skipRows cfg records)"

definition passesValidation :: "golib \<Rightarrow> ProcessingConfig \<Rightarrow> columnIndices \<Rightarrow> string list \<Rightarrow> bool" where
  "passesValidation L proc indices row = (\<not> isl (parseRecord L proc row indices 0))"

definition validPoints :: "golib \<Rightarrow> ProcessingConfig \<Rightarrow> columnIndices \<Rightarrow> string list list \<Rightarrow> Points" where
  "validPoints L proc indices rows =
     map (\<lambda>row. projr (parseRecord L proc row indices 0)) (filter (passesValidation L proc indices) rows)"

section \<open>A sample of the library, to run the model\<close>

text \<open>
  On ASCII text \<^verbatim>\<open>strings.ToLower\<close> maps A to Z onto a to z and \<^verbatim>\<open>strings.TrimSpace\<close> removes
  leading and trailing blanks, tabs, line feeds, vertical tabs, form feeds and carriage
  returns. \<^verbatim>\<open>strconv.ParseInt(s, 10, 64)\<close> reads an optional sign and decimal digits, within
  the range of \<^verbatim>\<open>int64\<close>. \<^verbatim>\<open>time.Unix\<close> counts from 1970, which is 62135596800 seconds after
  year 1. The values of \<^verbatim>\<open>time.Parse\<close>, \<^verbatim>\<open>strconv.ParseFloat\<close> and of the verb \<^verbatim>\<open>%.6f\<close> are listed
  for the cells of the reader's tests only. Insertion sort stands for \<^verbatim>\<open>sort.Slice\<close>.
\<close>

definition asciiLower :: "char \<Rightarrow> char" where
  "asciiLower c =
     (if (65::nat) \<le> of_char c \<and> of_char c \<le> (90::nat)
      then (case c of Char b0 b1 b2 b3 b4 b5 b6 b7 \<Rightarrow> Char b0 b1 b2 b3 b4 True b6 b7)
      else c)"

definition asciiSpace :: "char \<Rightarrow> bool" where
  "asciiSpace c = ((of_char c :: nat) = 32 \<or> (9::nat) \<le> of_char c \<and> of_char c \<le> (13::nat))"

definition asciiTrim :: "string \<Rightarrow> string" where
  "asciiTrim s = rev (dropWhile asciiSpace (rev (dropWhile asciiSpace s)))"

fun digitsValue :: "string \<Rightarrow> nat \<Rightarrow> nat option" where
  "digitsValue [] acc = Some acc"
| "digitsValue (c # cs) acc =
     (if (48::nat) \<le> of_char c \<and> of_char c \<le> (57::nat)
      then digitsValue cs (10 * acc + (of_char c - 48))
      else None)"

definition decimalInt64 :: "string \<Rightarrow> 64 word option" where
  "decimalInt64 s =
     (let neg = (s \<noteq> [] \<and> hd s = CHR ''-'');
          ds = (if s \<noteq> [] \<and> (hd s = CHR ''-'' \<or> hd s = CHR ''+'') then tl s else s)
      in if ds = [] then None
         else case digitsValue ds 0 of
                None \<Rightarrow> None
              | Some n \<Rightarrow>
                  if neg then (if n \<le> 2 ^ 63 then Some (- of_nat n) else None)
                  else (if n < 2 ^ 63 then Some (of_nat n) else None))"

definition sampleTimes :: "((string \<times> string) \<times> Time) list" where
  "sampleTimes =
     [((''2006-01-02T15:04:05Z'', ''2025-10-28T10:00:00Z''), Time 63897242400 0),
      ((''2006-01-02T15:04:05Z'', ''2025-10-28T11:00:00Z''), Time 63897246000 0),
      ((''2006-01-02T15:04:05Z'', ''2025-10-28T12:00:00Z''), Time 63897249600 0)]"

definition sampleFloats :: "(string \<times> float64 \<times> string) list" where
  "sampleFloats =
     [(''37.7749'', 0x4042E32FEC56D5D0, ''37.774900''),
      (''-122.4194'', 0xC05E9AD77318FC50, ''-122.419400''),
      (''37.8044'', 0x4042E6F694467382, ''37.804400''),
      (''-122.2711'', 0xC05E9159B3D07C85, ''-122.271100'')]"

fun insertBack :: "('a \<Rightarrow> 'a \<Rightarrow> bool) \<Rightarrow> 'a \<Rightarrow> 'a list \<Rightarrow> 'a list" where
  "insertBack lt x [] = [x]"
| "insertBack lt x (y # ys) = (if lt x y then y # insertBack lt x ys else x # y # ys)"

definition insertionSort :: "('a \<Rightarrow> 'a \<Rightarrow> bool) \<Rightarrow> 'a list \<Rightarrow> 'a list" where
  "insertionSort lt xs = rev (foldl (\<lambda>done x. insertBack lt x done) [] xs)"

definition sampleLib :: golib where
  "sampleLib =
     \<lparr>strings_ToLower = map asciiLower,
      strings_TrimSpace = asciiTrim,
      time_Parse = (\<lambda>layout value. map_of sampleTimes (layout, value)),
      time_Unix = (\<lambda>unix. Time (sint (unix + 62135596800)) 0),
      strconv_ParseInt = decimalInt64,
      strconv_ParseFloat = (\<lambda>s. map_option fst (map_of sampleFloats s)),
      fmt_6f = (\<lambda>x. case find (\<lambda>e. fst (snd e) = x) sampleFloats of
                         Some e \<Rightarrow> snd (snd e) | None \<Rightarrow> []),
      sort_Slice = insertionSort\<rparr>"

text \<open>
  A second sample, whose sort meets the documentation of \<^verbatim>\<open>sort.Slice\<close> as well: it reads the
  slice from its end. Equal elements come out reversed.
\<close>

definition sampleLibRev :: golib where
  "sampleLibRev = sampleLib\<lparr>sort_Slice := (\<lambda>lt x. insertionSort lt (rev x))\<rparr>"

section \<open>The library's sort, from Go 1.19 on\<close>

text \<open>
  The repository asks for Go 1.21 or later. There \<^verbatim>\<open>sort.Slice(x, less)\<close> runs \<^verbatim>\<open>pdqsort_func\<close>
  on the whole slice, with the limit \<^verbatim>\<open>bits.Len(length)\<close>. The functions below follow the
  library's \<^verbatim>\<open>zsortfunc.go\<close> for slices of fewer than 50 elements whose partitions stay
  balanced: there the algorithm takes no ninther in \<^verbatim>\<open>choosePivot_func\<close>, shifts nothing in
  \<^verbatim>\<open>partialInsertionSort_func\<close>, never reverses the range, and calls neither
  \<^verbatim>\<open>breakPatterns_func\<close> nor \<^verbatim>\<open>heapSort_func\<close>. Outside this range the model stops, with
  \<open>None\<close>. Positions are of type \<^verbatim>\<open>int\<close> as in the library.
\<close>

text \<open>\<^verbatim>\<open>data.Swap(i, j)\<close> and the loops of \<^verbatim>\<open>insertionSort_func(data, a, b)\<close>.\<close>

definition swapAt :: "'a list \<Rightarrow> int \<Rightarrow> int \<Rightarrow> 'a list" where
  "swapAt data i j = data[nat i := data ! nat j, nat j := data ! nat i]"

function insertionSort_inner :: "('a \<Rightarrow> 'a \<Rightarrow> bool) \<Rightarrow> 'a list \<Rightarrow> int \<Rightarrow> int \<Rightarrow> 'a list" where
  "insertionSort_inner lt data a j =
     (if j > a \<and> lt (data ! nat j) (data ! nat (j - 1))
      then insertionSort_inner lt (swapAt data j (j - 1)) a (j - 1)
      else data)"
  by pat_completeness auto
termination
  by (relation "measure (\<lambda>(lt, data, a, j). nat (j - a))") auto

function insertionSort_outer :: "('a \<Rightarrow> 'a \<Rightarrow> bool) \<Rightarrow> 'a list \<Rightarrow> int \<Rightarrow> int \<Rightarrow> int \<Rightarrow> 'a list" where
  "insertionSort_outer lt data a b i =
     (if i < b then insertionSort_outer lt (insertionSort_inner lt data a i) a b (i + 1) else data)"
  by pat_completeness auto
termination
  by (relation "measure (\<lambda>(lt, data, a, b, i). nat (b - i))") auto

definition insertionSort_func :: "('a \<Rightarrow> 'a \<Rightarrow> bool) \<Rightarrow> 'a list \<Rightarrow> int \<Rightarrow> int \<Rightarrow> 'a list" where
  "insertionSort_func lt data a b = insertionSort_outer lt data a b (a + 1)"

text \<open>
  \<^verbatim>\<open>choosePivot_func\<close> below 50 elements: the median of three positions, and the number of
  swaps it took as a hint.
\<close>

datatype sortedHint = unknownHint | increasingHint | decreasingHint

definition order2_func :: "('a \<Rightarrow> 'a \<Rightarrow> bool) \<Rightarrow> 'a list \<Rightarrow> int \<Rightarrow> int \<Rightarrow> nat \<Rightarrow> int \<times> int \<times> nat" where
  "order2_func lt data a b swaps =
     (if lt (data ! nat b) (data ! nat a) then (b, a, swaps + 1) else (a, b, swaps))"

definition median_func :: "('a \<Rightarrow> 'a \<Rightarrow> bool) \<Rightarrow> 'a list \<Rightarrow> int \<Rightarrow> int \<Rightarrow> int \<Rightarrow> nat \<Rightarrow> int \<times> nat" where
  "median_func lt data a0 b0 c0 swaps0 =
     (case order2_func lt data a0 b0 swaps0 of (a1, b1, swaps1) \<Rightarrow>
      case order2_func lt data b1 c0 swaps1 of (b2, c2, swaps2) \<Rightarrow>
      case order2_func lt data a1 b2 swaps2 of (a3, b3, swaps3) \<Rightarrow> (b3, swaps3))"

definition choosePivot_func :: "('a \<Rightarrow> 'a \<Rightarrow> bool) \<Rightarrow> 'a list \<Rightarrow> int \<Rightarrow> int \<Rightarrow> int \<times> sortedHint" where
  "choosePivot_func lt data a b =
     (let l = b - a;
          i = a + l div 4 * 1;
          j = a + l div 4 * 2;
          k = a + l div 4 * 3
      in case (if l \<ge> 8 then median_func lt data i j k 0 else (j, 0)) of
           (pivot, swaps) \<Rightarrow>
             (pivot, if swaps = 0 then increasingHint
                     else if swaps = 4 * 3 then decreasingHint else unknownHint))"

text \<open>
  The two scans the partitions are made of: \<^verbatim>\<open>for i <= j && P(i) { i++ }\<close> and
  \<^verbatim>\<open>for i <= j && P(j) { j-- }\<close>.
\<close>

function scanUp :: "(int \<Rightarrow> bool) \<Rightarrow> int \<Rightarrow> int \<Rightarrow> int" where
  "scanUp P i j = (if i \<le> j \<and> P i then scanUp P (i + 1) j else i)"
  by pat_completeness auto
termination
  by (relation "measure (\<lambda>(P, i, j). nat (j + 1 - i))") auto

function scanDown :: "(int \<Rightarrow> bool) \<Rightarrow> int \<Rightarrow> int \<Rightarrow> int" where
  "scanDown P i j = (if i \<le> j \<and> P j then scanDown P i (j - 1) else j)"
  by pat_completeness auto
termination
  by (relation "measure (\<lambda>(P, i, j). nat (j + 1 - i))") auto

declare scanUp.simps [simp del] scanDown.simps [simp del]
  insertionSort_inner.simps [simp del] insertionSort_outer.simps [simp del]

lemma scanUp_ge: "i \<le> scanUp P i j"
proof (induction P i j rule: scanUp.induct)
  case (1 P i j)
  show ?case
  proof (cases "i \<le> j \<and> P i")
    case True
    then have "scanUp P i j = scanUp P (i + 1) j" by (subst scanUp.simps) simp
    then show ?thesis using 1 True by simp
  next
    case False
    then have "scanUp P i j = i" by (subst scanUp.simps) auto
    then show ?thesis by simp
  qed
qed

lemma scanDown_le: "scanDown P i j \<le> j"
proof (induction P i j rule: scanDown.induct)
  case (1 P i j)
  show ?case
  proof (cases "i \<le> j \<and> P j")
    case True
    then have "scanDown P i j = scanDown P i (j - 1)" by (subst scanDown.simps) simp
    then show ?thesis using 1 True by simp
  next
    case False
    then have "scanDown P i j = j" by (subst scanDown.simps) auto
    then show ?thesis by simp
  qed
qed

text \<open>
  \<^verbatim>\<open>partialInsertionSort_func\<close> below 50 elements: it moves nothing and reports whether the
  range is sorted already.
\<close>

definition partialInsertionSort_func :: "('a \<Rightarrow> 'a \<Rightarrow> bool) \<Rightarrow> 'a list \<Rightarrow> int \<Rightarrow> int \<Rightarrow> bool" where
  "partialInsertionSort_func lt data a b =
     (scanUp (\<lambda>i. \<not> lt (data ! nat i) (data ! nat (i - 1))) (a + 1) (b - 1) = b)"

text \<open>\<^verbatim>\<open>partition_func\<close> and \<^verbatim>\<open>partitionEqual_func\<close>, with the pivot moved to position \<open>a\<close> first.\<close>

function partition_loop :: "('a \<Rightarrow> 'a \<Rightarrow> bool) \<Rightarrow> 'a list \<Rightarrow> int \<Rightarrow> int \<Rightarrow> int \<Rightarrow> 'a list \<times> int" where
  "partition_loop lt data a i j =
     (let i' = scanUp (\<lambda>i. lt (data ! nat i) (data ! nat a)) i j;
          j' = scanDown (\<lambda>j. \<not> lt (data ! nat j) (data ! nat a)) i' j
      in if i' > j' then (swapAt data j' a, j')
         else partition_loop lt (swapAt data i' j') a (i' + 1) (j' - 1))"
  by pat_completeness auto
termination
proof (relation "measure (\<lambda>(lt, data, a, i, j). nat (j + 1 - i))", goal_cases)
  case 1
  then show ?case by simp
next
  case (2 lt data a i j i' j')
  have "i \<le> i'" using 2(1) scanUp_ge by simp
  moreover have "j' \<le> j" using 2(2) scanDown_le by simp
  ultimately show ?case using 2(3) by simp
qed

definition partition_func :: "('a \<Rightarrow> 'a \<Rightarrow> bool) \<Rightarrow> 'a list \<Rightarrow> int \<Rightarrow> int \<Rightarrow> int \<Rightarrow> 'a list \<times> int \<times> bool" where
  "partition_func lt data0 a b pivot =
     (let data = swapAt data0 a pivot;
          i = scanUp (\<lambda>i. lt (data ! nat i) (data ! nat a)) (a + 1) (b - 1);
          j = scanDown (\<lambda>j. \<not> lt (data ! nat j) (data ! nat a)) i (b - 1)
      in if i > j then (swapAt data j a, j, True)
         else (case partition_loop lt (swapAt data i j) a (i + 1) (j - 1) of
                 (data', mid) \<Rightarrow> (data', mid, False)))"

function partitionEqual_loop :: "('a \<Rightarrow> 'a \<Rightarrow> bool) \<Rightarrow> 'a list \<Rightarrow> int \<Rightarrow> int \<Rightarrow> int \<Rightarrow> 'a list \<times> int" where
  "partitionEqual_loop lt data a i j =
     (let i' = scanUp (\<lambda>i. \<not> lt (data ! nat a) (data ! nat i)) i j;
          j' = scanDown (\<lambda>j. lt (data ! nat a) (data ! nat j)) i' j
      in if i' > j' then (data, i')
         else partitionEqual_loop lt (swapAt data i' j') a (i' + 1) (j' - 1))"
  by pat_completeness auto
termination
proof (relation "measure (\<lambda>(lt, data, a, i, j). nat (j + 1 - i))", goal_cases)
  case 1
  then show ?case by simp
next
  case (2 lt data a i j i' j')
  have "i \<le> i'" using 2(1) scanUp_ge by simp
  moreover have "j' \<le> j" using 2(2) scanDown_le by simp
  ultimately show ?case using 2(3) by simp
qed

definition partitionEqual_func :: "('a \<Rightarrow> 'a \<Rightarrow> bool) \<Rightarrow> 'a list \<Rightarrow> int \<Rightarrow> int \<Rightarrow> int \<Rightarrow> 'a list \<times> int" where
  "partitionEqual_func lt data a b pivot = partitionEqual_loop lt (swapAt data a pivot) a (a + 1) (b - 1)"

text \<open>
  The loop of \<^verbatim>\<open>pdqsort_func\<close>, one unit of fuel for each pass; \<open>None\<close> when the fuel is
  spent and where the model stops.
\<close>

fun pdqsort_func :: "nat \<Rightarrow> ('a \<Rightarrow> 'a \<Rightarrow> bool) \<Rightarrow> 'a list \<Rightarrow> int \<Rightarrow> int \<Rightarrow> nat \<Rightarrow> bool \<Rightarrow> bool \<Rightarrow> 'a list option" where
  "pdqsort_func 0 lt data a b limit wasBalanced wasPartitioned = None"
| "pdqsort_func (Suc fuel) lt data a b limit wasBalanced wasPartitioned =
     (let length = b - a in
      if length \<le> 12 then Some (insertionSort_func lt data a b)
      else if limit = 0 \<or> \<not> wasBalanced \<or> 50 \<le> length then None
      else
        case choosePivot_func lt data a b of (pivot, hint) \<Rightarrow>
        if hint = decreasingHint then None
        else if wasBalanced \<and> wasPartitioned \<and> hint = increasingHint
                \<and> partialInsertionSort_func lt data a b then Some data
        else if a > 0 \<and> \<not> lt (data ! nat (a - 1)) (data ! nat pivot)
        then (case partitionEqual_func lt data a b pivot of
                (data', mid) \<Rightarrow> pdqsort_func fuel lt data' mid b limit wasBalanced wasPartitioned)
        else
          case partition_func lt data a b pivot of (data', mid, alreadyPartitioned) \<Rightarrow>
          let leftLen = mid - a; rightLen = b - mid; balanceThreshold = length div 8 in
          if leftLen < rightLen
          then (case pdqsort_func fuel lt data' a mid limit True True of
                  None \<Rightarrow> None
                | Some data'' \<Rightarrow>
                    pdqsort_func fuel lt data'' (mid + 1) b limit
                      (leftLen \<ge> balanceThreshold) alreadyPartitioned)
          else (case pdqsort_func fuel lt data' (mid + 1) b limit True True of
                  None \<Rightarrow> None
                | Some data'' \<Rightarrow>
                    pdqsort_func fuel lt data'' a mid limit
                      (rightLen \<ge> balanceThreshold) alreadyPartitioned))"

text \<open>\<^verbatim>\<open>bits.Len\<close>, and \<^verbatim>\<open>sort.Slice\<close> itself.\<close>

fun bits_Len :: "nat \<Rightarrow> nat" where
  "bits_Len n = (if n = 0 then 0 else Suc (bits_Len (n div 2)))"

definition pdqsort_Slice :: "('a \<Rightarrow> 'a \<Rightarrow> bool) \<Rightarrow> 'a list \<Rightarrow> 'a list option" where
  "pdqsort_Slice lt x = pdqsort_func (Suc (length x)) lt x 0 (int (length x)) (bits_Len (length x)) True True"

text \<open>
  The sample library with this sort; where the model of the algorithm stops, insertion
  sort stands in.
\<close>

definition pdqsortLib :: golib where
  "pdqsortLib =
     sampleLib\<lparr>sort_Slice :=
       (\<lambda>lt x. case pdqsort_Slice lt x of Some y \<Rightarrow> y | None \<Rightarrow> insertionSort lt x)\<rparr>"

declare partition_loop.simps [simp del] partitionEqual_loop.simps [simp del]

lemmas pdqsort_eval = pdqsortLib_def pdqsort_Slice_def insertionSort_func_def
  insertionSort_inner.simps insertionSort_outer.simps choosePivot_func_def median_func_def
  order2_func_def partialInsertionSort_func_def scanUp.simps scanDown.simps
  partition_func_def partition_loop.simps partitionEqual_func_def partitionEqual_loop.simps
  swapAt_def

text \<open>
  Thirteen points at one place: twelve of one timestamp, titled p0 to p11 in this order,
  then one of an earlier timestamp, p12.
\<close>

definition thirteenPoints :: Points where
  "thirteenPoints =
     [\<lparr>Timestamp = Time 63897246000 0, Latitude = 0x4042E32FEC56D5D0, Longitude = 0xC05E9AD77318FC50,
        Title = ''p0'', Description = []\<rparr>,
      \<lparr>Timestamp = Time 63897246000 0, Latitude = 0x4042E32FEC56D5D0, Longitude = 0xC05E9AD77318FC50,
        Title = ''p1'', Description = []\<rparr>,
      \<lparr>Timestamp = Time 63897246000 0, Latitude = 0x4042E32FEC56D5D0, Longitude = 0xC05E9AD77318FC50,
        Title = ''p2'', Description = []\<rparr>,
      \<lparr>Timestamp = Time 63897246000 0, Latitude = 0x4042E32FEC56D5D0, Longitude = 0xC05E9AD77318FC50,
        Title = ''p3'', Description = []\<rparr>,
      \<lparr>Timestamp = Time 63897246000 0, Latitude = 0x4042E32FEC56D5D0, Longitude = 0xC05E9AD77318FC50,
        Title = ''p4'', Description = []\<rparr>,
      \<lparr>Timestamp = Time 63897246000 0, Latitude = 0x4042E32FEC56D5D0, Longitude = 0xC05E9AD77318FC50,
        Title = ''p5'', Description = []\<rparr>,
      \<lparr>Timestamp = Time 63897246000 0, Latitude = 0x4042E32FEC56D5D0, Longitude = 0xC05E9AD77318FC50,
        Title = ''p6'', Description = []\<rparr>,
      \<lparr>Timestamp = Time 63897246000 0, Latitude = 0x4042E32FEC56D5D0, Longitude = 0xC05E9AD77318FC50,
        Title = ''p7'', Description = []\<rparr>,
      \<lparr>Timestamp = Time 63897246000 0, Latitude = 0x4042E32FEC56D5D0, Longitude = 0xC05E9AD77318FC50,
        Title = ''p8'', Description = []\<rparr>,
      \<lparr>Timestamp = Time 63897246000 0, Latitude = 0x4042E32FEC56D5D0, Longitude = 0xC05E9AD77318FC50,
        Title = ''p9'', Description = []\<rparr>,
      \<lparr>Timestamp = Time 63897246000 0, Latitude = 0x4042E32FEC56D5D0, Longitude = 0xC05E9AD77318FC50,
        Title = ''p10'', Description = []\<rparr>,
      \<lparr>Timestamp = Time 63897246000 0, Latitude = 0x4042E32FEC56D5D0, Longitude = 0xC05E9AD77318FC50,
        Title = ''p11'', Description = []\<rparr>,
      \<lparr>Timestamp = Time 63897242400 0, Latitude = 0x4042E32FEC56D5D0, Longitude = 0xC05E9AD77318FC50,
        Title = ''p12'', Description = []\<rparr>]"

section \<open>RemoveDuplicates keeps the first point of each key\<close>

lemma seen_at_upd: "seen_at (seen(k \<mapsto> True)) k' = (k' = k \<or> seen_at seen k')"
  by (simp add: seen_at_def)

text \<open>The loop, from any state: the points kept so far, then the first of each new key.\<close>

lemma RemoveDuplicates_loop_keepFirst:
  "RemoveDuplicates_loop L ps seen result = result @ keepFirst (coordKey L) {k. seen_at seen k} ps"
proof (induction ps arbitrary: seen result)
  case Nil
  then show ?case by simp
next
  case (Cons p ps)
  have ins: "{k. seen_at (seen(coordKey L p \<mapsto> True)) k} = insert (coordKey L p) {k. seen_at seen k}"
    by (auto simp: seen_at_upd)
  show ?case
  proof (cases "seen_at seen (coordKey L p)")
    case True
    then show ?thesis by (simp add: Cons.IH)
  next
    case False
    have "RemoveDuplicates_loop L (p # ps) seen result =
          RemoveDuplicates_loop L ps (seen(coordKey L p \<mapsto> True)) (result @ [p])"
      using False by simp
    also have "\<dots> = (result @ [p]) @ keepFirst (coordKey L) (insert (coordKey L p) {k. seen_at seen k}) ps"
      unfolding Cons.IH ins ..
    finally show ?thesis using False by simp
  qed
qed

lemma RemoveDuplicates_keepFirst: "RemoveDuplicates L ps = keepFirst (coordKey L) {} ps"
  by (simp add: RemoveDuplicates_def RemoveDuplicates_loop_keepFirst seen_at_def)

text \<open>By positions: position \<open>i\<close> is kept when its key is new among the positions before it.\<close>

lemma keepFirst_index:
  "keepFirst f S xs =
     map (\<lambda>i. xs ! i) (filter (\<lambda>i. f (xs ! i) \<notin> S \<union> f ` set (take i xs)) [0..<length xs])"
proof (induction xs arbitrary: S)
  case Nil
  then show ?case by simp
next
  case (Cons x xs)
  have upt: "[0..<Suc (length xs)] = 0 # map Suc [0..<length xs]"
    by (simp add: upt_conv_Cons map_Suc_upt del: upt_Suc)
  show ?case
  proof (cases "f x \<in> S")
    case True
    have "filter (\<lambda>i. f (xs ! i) \<notin> S \<and> f (xs ! i) \<noteq> f x \<and> f (xs ! i) \<notin> f ` set (take i xs)) [0..<length xs]
        = filter (\<lambda>i. f (xs ! i) \<notin> S \<and> f (xs ! i) \<notin> f ` set (take i xs)) [0..<length xs]"
      using True by (intro filter_cong) auto
    then show ?thesis
      using True by (simp add: upt filter_map comp_def Cons.IH del: upt_Suc)
  next
    case False
    have "filter (\<lambda>i. f (xs ! i) \<notin> S \<and> f (xs ! i) \<noteq> f x \<and> f (xs ! i) \<notin> f ` set (take i xs)) [0..<length xs]
        = filter (\<lambda>i. f (xs ! i) \<noteq> f x \<and> f (xs ! i) \<notin> S \<and> f (xs ! i) \<notin> f ` set (take i xs)) [0..<length xs]"
      by (intro filter_cong) auto
    then show ?thesis
      using False by (simp add: upt filter_map comp_def Cons.IH del: upt_Suc)
  qed
qed

lemma length_keepFirst: "length (keepFirst f S xs) \<le> length xs"
  by (induction xs arbitrary: S) (auto simp: le_SucI)

lemma keepFirst_keys: "f ` set (keepFirst f S xs) \<inter> S = {}"
  by (induction xs arbitrary: S) auto

lemma keepFirst_distinct: "distinct (map f (keepFirst f S xs))"
proof (induction xs arbitrary: S)
  case Nil
  then show ?case by simp
next
  case (Cons x xs)
  have "f x \<notin> f ` set (keepFirst f (insert (f x) S) xs)"
    using keepFirst_keys [of f "insert (f x) S" xs] by auto
  then show ?case by (simp add: Cons.IH)
qed

lemma keepFirst_image: "f ` set (keepFirst f S xs) = f ` set xs - S"
  by (induction xs arbitrary: S) auto

lemma keepFirst_id: "distinct (map f xs) \<Longrightarrow> f ` set xs \<inter> S = {} \<Longrightarrow> keepFirst f S xs = xs"
  by (induction xs arbitrary: S) auto

text \<open>
  Claim C5. For every point collection, RemoveDuplicates scans in the current order and
  keys each point by its latitude and longitude formatted to 6 decimal places: the point at
  position \<open>i\<close> is kept exactly when no point before it has the same key, and the kept points
  stay in order. So each key of the collection is kept once, at its first occurrence. The
  key of a point does not change with its timestamp, title or description: a later point
  with the key of an earlier one is dropped whatever these are.
\<close>

theorem RemoveDuplicates_first_occurrence:
  "RemoveDuplicates L p =
     map (\<lambda>i. p ! i)
       (filter (\<lambda>i. coordKey L (p ! i) \<notin> coordKey L ` set (take i p)) [0..<length p])
   \<and> distinct (map (coordKey L) (RemoveDuplicates L p))
   \<and> coordKey L ` set (RemoveDuplicates L p) = coordKey L ` set p
   \<and> coordKey L point = fmt_6f L (Latitude point) @ '','' @ fmt_6f L (Longitude point)
   \<and> coordKey L (point\<lparr>Timestamp := t, Title := a, Description := d\<rparr>) = coordKey L point"
proof -
  have "RemoveDuplicates L p =
     map (\<lambda>i. p ! i)
       (filter (\<lambda>i. coordKey L (p ! i) \<notin> coordKey L ` set (take i p)) [0..<length p])"
    by (simp add: RemoveDuplicates_keepFirst keepFirst_index)
  moreover have "distinct (map (coordKey L) (RemoveDuplicates L p))"
    by (simp add: RemoveDuplicates_keepFirst keepFirst_distinct)
  moreover have "coordKey L ` set (RemoveDuplicates L p) = coordKey L ` set p"
    by (simp add: RemoveDuplicates_keepFirst keepFirst_image)
  moreover have "coordKey L point = fmt_6f L (Latitude point) @ '','' @ fmt_6f L (Longitude point)"
    by (simp add: coordKey_def)
  moreover have "coordKey L (point\<lparr>Timestamp := t, Title := a, Description := d\<rparr>) = coordKey L point"
    by (simp add: coordKey_def)
  ultimately show ?thesis by blast
qed

text \<open>
  The test of the package: three points at one coordinate pair and one elsewhere, with
  different timestamps and titles; the first of the three and the other one remain.
\<close>

lemma RemoveDuplicates_example:
  "RemoveDuplicates sampleLib
     [\<lparr>Timestamp = Time 63897242400 0, Latitude = 0x4042E32FEC56D5D0, Longitude = 0xC05E9AD77318FC50,
        Title = ''SF1'', Description = []\<rparr>,
      \<lparr>Timestamp = Time 63897246000 0, Latitude = 0x4042E32FEC56D5D0, Longitude = 0xC05E9AD77318FC50,
        Title = ''SF2'', Description = []\<rparr>,
      \<lparr>Timestamp = Time 63897249600 0, Latitude = 0x4042E6F694467382, Longitude = 0xC05E9159B3D07C85,
        Title = ''Bay Bridge'', Description = []\<rparr>,
      \<lparr>Timestamp = Time 63897249600 0, Latitude = 0x4042E32FEC56D5D0, Longitude = 0xC05E9AD77318FC50,
        Title = ''SF3'', Description = []\<rparr>]
   = [\<lparr>Timestamp = Time 63897242400 0, Latitude = 0x4042E32FEC56D5D0, Longitude = 0xC05E9AD77318FC50,
        Title = ''SF1'', Description = []\<rparr>,
      \<lparr>Timestamp = Time 63897249600 0, Latitude = 0x4042E6F694467382, Longitude = 0xC05E9159B3D07C85,
        Title = ''Bay Bridge'', Description = []\<rparr>]"
  by (simp add: RemoveDuplicates_def coordKey_def seen_at_def sampleLib_def sampleFloats_def)

text \<open>
  Claim C8. RemoveDuplicates is idempotent: for every point collection, applying it twice
  gives what applying it once gives; and the result is not longer than the input.
\<close>

theorem RemoveDuplicates_idempotent:
  "RemoveDuplicates L (RemoveDuplicates L p) = RemoveDuplicates L p
   \<and> length (RemoveDuplicates L p) \<le> length p"
  by (simp add: RemoveDuplicates_keepFirst keepFirst_id keepFirst_distinct length_keepFirst)

section \<open>TimeRange returns the earliest and the latest timestamp\<close>

text \<open>
  The loop keeps two timestamps of the points seen so far, one that none of them is before
  and one that none of them is after.
\<close>

lemma TimeRange_loop_spec:
  assumes "startT \<in> T" "endT \<in> T" "\<forall>t\<in>T. \<not> Before t startT" "\<forall>t\<in>T. \<not> After t endT"
  shows "fst (TimeRange_loop ps startT endT) \<in> T \<union> Timestamp ` set ps \<and>
         snd (TimeRange_loop ps startT endT) \<in> T \<union> Timestamp ` set ps \<and>
         (\<forall>t \<in> T \<union> Timestamp ` set ps. \<not> Before t (fst (TimeRange_loop ps startT endT))) \<and>
         (\<forall>t \<in> T \<union> Timestamp ` set ps. \<not> After t (snd (TimeRange_loop ps startT endT)))"
  using assms
proof (induction ps arbitrary: startT endT T)
  case Nil
  then show ?case by simp
next
  case (Cons p ps)
  let ?s = "if Before (Timestamp p) startT then Timestamp p else startT"
  let ?e = "if After (Timestamp p) endT then Timestamp p else endT"
  let ?T = "insert (Timestamp p) T"
  have a: "?s \<in> ?T" "?e \<in> ?T" using Cons.prems by auto
  have b: "\<forall>t\<in>?T. \<not> Before t ?s" using Cons.prems(3) by (auto simp: Before_def)
  have c: "\<forall>t\<in>?T. \<not> After t ?e" using Cons.prems(4) by (auto simp: After_def)
  have eq: "?T \<union> Timestamp ` set ps = T \<union> Timestamp ` set (p # ps)" by auto
  show ?case using Cons.IH [OF a b c] unfolding eq by simp
qed

text \<open>
  Claim C9. For every non-empty point collection, in any order, TimeRange returns the
  earliest and the latest timestamp among its points: each is the timestamp of a point, no
  point's timestamp is before the first and none is after the second. On the empty
  collection it returns the zero-value instant for both ends.
\<close>

theorem TimeRange_earliest_latest:
  "(p \<noteq> [] \<longrightarrow>
      fst (TimeRange p) \<in> Timestamp ` set p \<and>
      snd (TimeRange p) \<in> Timestamp ` set p \<and>
      (\<forall>q\<in>set p. \<not> Before (Timestamp q) (fst (TimeRange p))) \<and>
      (\<forall>q\<in>set p. \<not> After (Timestamp q) (snd (TimeRange p))))
   \<and> TimeRange [] = (zeroTime, zeroTime)"
proof (cases p)
  case Nil
  then show ?thesis by (simp add: TimeRange_def)
next
  case (Cons p0 rest)
  let ?t0 = "Timestamp p0"
  have "fst (TimeRange_loop rest ?t0 ?t0) \<in> {?t0} \<union> Timestamp ` set rest \<and>
        snd (TimeRange_loop rest ?t0 ?t0) \<in> {?t0} \<union> Timestamp ` set rest \<and>
        (\<forall>t \<in> {?t0} \<union> Timestamp ` set rest. \<not> Before t (fst (TimeRange_loop rest ?t0 ?t0))) \<and>
        (\<forall>t \<in> {?t0} \<union> Timestamp ` set rest. \<not> After t (snd (TimeRange_loop rest ?t0 ?t0)))"
    by (rule TimeRange_loop_spec) (simp_all add: Before_def After_def)
  then show ?thesis using Cons by (simp add: TimeRange_def)
qed

text \<open>The unordered collection of the package's test: now, one hour later, one hour earlier.\<close>

theorem TimeRange_earliest_latest_witness:
  "TimeRange
     [\<lparr>Timestamp = Time 63897246000 0, Latitude = 0x4000000000000000, Longitude = 0x4000000000000000, Title = [], Description = []\<rparr>,
      \<lparr>Timestamp = Time 63897249600 0, Latitude = 0x4008000000000000, Longitude = 0x4008000000000000, Title = [], Description = []\<rparr>,
      \<lparr>Timestamp = Time 63897242400 0, Latitude = 0x3FF0000000000000, Longitude = 0x3FF0000000000000, Title = [], Description = []\<rparr>]
   = (Time 63897242400 0, Time 63897249600 0)
   \<and> \<not> Before (Time 63897246000 0) (Time 63897242400 0)
   \<and> \<not> After (Time 63897246000 0) (Time 63897249600 0)"
  using TimeRange_earliest_latest
    [of "[\<lparr>Timestamp = Time 63897246000 0, Latitude = 0x4000000000000000, Longitude = 0x4000000000000000, Title = [], Description = []\<rparr>,
      \<lparr>Timestamp = Time 63897249600 0, Latitude = 0x4008000000000000, Longitude = 0x4008000000000000, Title = [], Description = []\<rparr>,
      \<lparr>Timestamp = Time 63897242400 0, Latitude = 0x3FF0000000000000, Longitude = 0x3FF0000000000000, Title = [], Description = []\<rparr>]"]
  by (simp add: TimeRange_def Before_def After_def)

section \<open>Timestamps: the order of the attempts\<close>

lemma firstSuccess_append:
  "firstSuccess (as @ bs) = (case firstSuccess as of Some t \<Rightarrow> Some t | None \<Rightarrow> firstSuccess bs)"
  by (induction as) (auto split: option.splits)

lemma tryFormats_firstSuccess:
  "tryFormats L formats s = firstSuccess (map (\<lambda>format. time_Parse L format s) formats)"
  by (induction formats) (auto split: option.splits)

lemma firstSuccess_None: "(firstSuccess as = None) = list_all (\<lambda>a. a = None) as"
  by (induction as) (auto split: option.splits)

lemma parseTimestamp_attempts:
  "parseTimestamp L proc s0 =
     (case firstSuccess (timestampAttempts L proc (strings_TrimSpace L s0)) of
        Some t \<Rightarrow> Inr t
      | None \<Rightarrow> Inl (UnparseableTimestamp (strings_TrimSpace L s0)))"
proof -
  have chain: "defaultFormats = fallbackChain"
    by (simp add: defaultFormats_def fallbackChain_def)
  show ?thesis
    unfolding parseTimestamp_def parseDefaultTimestamp_def timestampAttempts_def Let_def
      tryFormats_firstSuccess firstSuccess_append chain
    by (simp split: option.splits)
qed

text \<open>
  Claim C4. For every timestamp token, after trimming surrounding whitespace, parsing
  tries each custom format in list order, then the fallback chain in its stated order,
  and last the token as a signed 64-bit count of epoch seconds; the first success is the
  result, and parsing fails only if every attempt fails.
\<close>

theorem parseTimestamp_first_success:
  "parseTimestamp L proc s0 =
     (case firstSuccess (timestampAttempts L proc (strings_TrimSpace L s0)) of
        Some t \<Rightarrow> Inr t
      | None \<Rightarrow> Inl (UnparseableTimestamp (strings_TrimSpace L s0)))
   \<and> isl (parseTimestamp L proc s0)
       = list_all (\<lambda>a. a = None) (timestampAttempts L proc (strings_TrimSpace L s0))
   \<and> defaultFormats = fallbackChain"
proof -
  have "isl (parseTimestamp L proc s0)
       = (firstSuccess (timestampAttempts L proc (strings_TrimSpace L s0)) = None)"
    by (simp add: parseTimestamp_attempts split: option.splits)
  then show ?thesis
    by (simp add: parseTimestamp_attempts firstSuccess_None defaultFormats_def fallbackChain_def)
qed

text \<open>
  Evaluation with the sample library: its facts unfold here.
\<close>

lemmas sample_eval = sampleLib_def asciiLower_def asciiTrim_def asciiSpace_def decimalInt64_def
  sampleTimes_def sampleFloats_def

text \<open>
  The scenario of the specification, a token of digits, falls through to epoch seconds;
  a token in the first layout of the chain, with blanks around it; and a token no attempt
  reads.
\<close>

lemma parseTimestamp_examples:
  "parseTimestamp sampleLib \<lparr>proc_RemoveDuplicates = False, TimestampFormats = []\<rparr> ''1730131445''
     = Inr (Time 63865728245 0)
   \<and> parseTimestamp sampleLib \<lparr>proc_RemoveDuplicates = False, TimestampFormats = []\<rparr>
       ''  2025-10-28T10:00:00Z  ''
     = Inr (Time 63897242400 0)
   \<and> parseTimestamp sampleLib \<lparr>proc_RemoveDuplicates = False, TimestampFormats = []\<rparr> ''not-a-timestamp''
     = Inl (UnparseableTimestamp ''not-a-timestamp'')"
  by (simp add: parseTimestamp_def parseDefaultTimestamp_def defaultFormats_def sample_eval)

section \<open>Record validation: too few columns\<close>

lemma cell_not_Insufficient: "cell row i = Inl e \<Longrightarrow> e \<noteq> InsufficientColumns"
  by (auto simp: cell_def split: if_splits)

lemma optionalCell_not_Insufficient: "optionalCell L row i = Inl e \<Longrightarrow> e \<noteq> InsufficientColumns"
  by (auto simp: optionalCell_def cell_def split: if_splits sum.splits)

text \<open>
  Claim C7, as the specification words it: validation fails with InsufficientColumns if
  the row's length does not cover the minimum of the required indices, and not for this
  reason otherwise. The code asks the row to cover each required index. The row of the
  package's test has two cells and the indices are 0, 1 and 2: its length covers the
  minimum of them, 0, and validation fails with InsufficientColumns.
\<close>

theorem parseRecord_minimum_counterexample:
  "parseRecord sampleLib \<lparr>proc_RemoveDuplicates = False, TimestampFormats = [''2006-01-02T15:04:05Z'']\<rparr>
     [''2025-10-28T10:00:00Z'', ''37.7749'']
     \<lparr>timestamp = 0, latitude = 1, longitude = 2, title = 3, description = 4\<rparr> 1
   = Inl InsufficientColumns
   \<and> min (0::int) (min 1 2) < int (length [''2025-10-28T10:00:00Z'', ''37.7749''])"
  by (simp add: parseRecord_def)

text \<open>
  Claim C7, amended. For every raw row and resolved column index map, record validation
  fails with InsufficientColumns if and only if the row's length does not cover the
  maximum of the required indices (timestamp, latitude, longitude), that is, does not cover
  each of them.
\<close>

theorem parseRecord_InsufficientColumns:
  "(parseRecord L proc row indices rowNum = Inl InsufficientColumns)
     = (int (length row) \<le> max (timestamp indices) (max (latitude indices) (longitude indices)))"
proof (cases "int (length row) \<le> timestamp indices \<or> int (length row) \<le> latitude indices
         \<or> int (length row) \<le> longitude indices")
  case True
  then show ?thesis by (auto simp: parseRecord_def)
next
  case False
  have "parseRecord L proc row indices rowNum \<noteq> Inl InsufficientColumns"
    using False
    by (auto simp: parseRecord_def split: sum.splits option.splits
          dest: cell_not_Insufficient optionalCell_not_Insufficient)
  then show ?thesis using False by auto
qed

section \<open>Column resolution with a header\<close>

lemma matchesDefaults_set: "matchesDefaults colName defaults = (colName \<in> set defaults)"
  by (induction defaults) auto

lemma matchesColumn_headerMatches:
  "matchesColumn L (strings_ToLower L col) configName defaults = headerMatches L configName defaults col"
  by (simp add: matchesColumn_def headerMatches_def matchesDefaults_set)

text \<open>What one pass of the loop body does to each field.\<close>

lemma headerCell_steps:
  "headerCell L cfg i col ix =
     (let a = headerMatches L (TimestampColumn cfg) timestampAliases col;
          b = headerMatches L (LatitudeColumn cfg) latitudeAliases col;
          c = headerMatches L (LongitudeColumn cfg) longitudeAliases col;
          d = optionalMatches L (TitleColumn cfg) col;
          e = optionalMatches L (DescriptionColumn cfg) col;
          i1 = (if a then ix\<lparr>timestamp := i\<rparr> else ix);
          i2 = (if b then i1\<lparr>latitude := i\<rparr> else i1);
          i3 = (if c then i2\<lparr>longitude := i\<rparr> else i2);
          i4 = (if d then i3\<lparr>title := i\<rparr> else i3);
          i5 = (if e then i4\<lparr>description := i\<rparr> else i4)
      in i5)"
  unfolding headerCell_def Let_def matchesColumn_headerMatches optionalMatches_def
    timestampAliases_def latitudeAliases_def longitudeAliases_def ..

lemma five_updates:
  fixes a b c d e :: bool and ix :: columnIndices and i :: int
  defines "r \<equiv>
     (let i1 = (if a then ix\<lparr>timestamp := i\<rparr> else ix);
          i2 = (if b then i1\<lparr>latitude := i\<rparr> else i1);
          i3 = (if c then i2\<lparr>longitude := i\<rparr> else i2);
          i4 = (if d then i3\<lparr>title := i\<rparr> else i3);
          i5 = (if e then i4\<lparr>description := i\<rparr> else i4)
      in i5)"
  shows "timestamp r = (if a then i else timestamp ix)"
    and "latitude r = (if b then i else latitude ix)"
    and "longitude r = (if c then i else longitude ix)"
    and "title r = (if d then i else title ix)"
    and "description r = (if e then i else description ix)"
  unfolding r_def Let_def by simp_all

lemma headerCell_timestamp:
  "timestamp (headerCell L cfg i col ix)
     = (if headerMatches L (TimestampColumn cfg) timestampAliases col then i else timestamp ix)"
  unfolding headerCell_steps by (simp only: Let_def five_updates [unfolded Let_def])

lemma headerCell_latitude:
  "latitude (headerCell L cfg i col ix)
     = (if headerMatches L (LatitudeColumn cfg) latitudeAliases col then i else latitude ix)"
  unfolding headerCell_steps by (simp only: Let_def five_updates [unfolded Let_def])

lemma headerCell_longitude:
  "longitude (headerCell L cfg i col ix)
     = (if headerMatches L (LongitudeColumn cfg) longitudeAliases col then i else longitude ix)"
  unfolding headerCell_steps by (simp only: Let_def five_updates [unfolded Let_def])

lemma headerCell_title:
  "title (headerCell L cfg i col ix)
     = (if optionalMatches L (TitleColumn cfg) col then i else title ix)"
  unfolding headerCell_steps by (simp only: Let_def five_updates [unfolded Let_def])

lemma headerCell_description:
  "description (headerCell L cfg i col ix)
     = (if optionalMatches L (DescriptionColumn cfg) col then i else description ix)"
  unfolding headerCell_steps by (simp only: Let_def five_updates [unfolded Let_def])

text \<open>
  A field that the loop body sets to the position of each matching cell ends at the
  position of the last matching cell, or keeps its value when no cell matches.
\<close>

lemma headerLoop_no_match:
  assumes step: "\<And>i col ix. sel (headerCell L cfg i col ix) = (if M col then i else sel ix)"
    and "\<forall>c\<in>set cells. \<not> M c"
  shows "sel (headerLoop L cfg i cells ix) = sel ix"
  using assms(2)
  by (induction cells arbitrary: i ix) (simp_all add: step)

lemma headerLoop_append:
  "headerLoop L cfg i (xs @ ys) ix = headerLoop L cfg (i + int (length xs)) ys (headerLoop L cfg i xs ix)"
  by (induction xs arbitrary: i ix) (simp_all add: add.assoc)

lemma headerLoop_last_match:
  assumes step: "\<And>i col ix. sel (headerCell L cfg i col ix) = (if M col then i else sel ix)"
    and k: "k < length cells" "M (cells ! k)"
    and last: "\<forall>j. k < j \<and> j < length cells \<longrightarrow> \<not> M (cells ! j)"
  shows "sel (headerLoop L cfg i cells ix) = i + int k"
proof -
  have split: "cells = take k cells @ cells ! k # drop (Suc k) cells"
    using k(1) by (simp add: id_take_nth_drop)
  have after: "\<forall>c\<in>set (drop (Suc k) cells). \<not> M c"
  proof
    fix c assume "c \<in> set (drop (Suc k) cells)"
    then obtain n where n: "n < length (drop (Suc k) cells)" "c = drop (Suc k) cells ! n"
      by (auto simp: in_set_conv_nth)
    then have "c = cells ! (Suc k + n)" "Suc k + n < length cells" by auto
    then show "\<not> M c" using last by auto
  qed
  have "headerLoop L cfg i cells ix
      = headerLoop L cfg (i + int (length (take k cells))) (cells ! k # drop (Suc k) cells)
          (headerLoop L cfg i (take k cells) ix)"
    by (subst split) (rule headerLoop_append)
  also have "sel \<dots> = i + int k"
    using k by (simp add: headerLoop_no_match [of sel L cfg M, OF step after] step min_def)
  finally show ?thesis .
qed

text \<open>The last matching position exists as soon as some cell matches.\<close>

lemma last_match_exists:
  assumes "\<exists>c\<in>set cells. M c"
  shows "\<exists>k<length cells. M (cells ! k) \<and> (\<forall>j<length cells. M (cells ! j) \<longrightarrow> j \<le> k)"
proof -
  let ?S = "{k. k < length cells \<and> M (cells ! k)}"
  have fin: "finite ?S" by simp
  have ne: "?S \<noteq> {}" using assms by (auto simp: in_set_conv_nth)
  have "Max ?S \<in> ?S" using fin ne by (rule Max_in)
  moreover have "\<forall>j\<in>?S. j \<le> Max ?S" using fin by auto
  ultimately show ?thesis by (intro exI [of _ "Max ?S"]) auto
qed

lemma headerLoop_lastMatch:
  assumes step: "\<And>i col ix. sel (headerCell L cfg i col ix) = (if M col then i else sel ix)"
    and some: "\<exists>c\<in>set cells. M c"
  shows "lastMatch M cells (sel (headerLoop L cfg 0 cells ix))"
proof -
  obtain k where k: "k < length cells" "M (cells ! k)"
    "\<forall>j<length cells. M (cells ! j) \<longrightarrow> j \<le> k"
    using last_match_exists [OF some] by auto
  then have later: "\<forall>j. k < j \<and> j < length cells \<longrightarrow> \<not> M (cells ! j)" by auto
  have val: "sel (headerLoop L cfg 0 cells ix) = int k"
    using headerLoop_last_match [of sel L cfg M k cells 0 ix, OF step k(1) k(2) later] by simp
  have "list_all (\<lambda>c. \<not> M c) (drop (Suc k) cells)"
    using later by (auto simp: list_all_length)
  then show ?thesis using k by (simp add: lastMatch_def val)
qed

lemma headerLoop_resolved:
  assumes step: "\<And>i col ix. sel (headerCell L cfg i col ix) = (if M col then i else sel ix)"
    and none: "sel noIndices = - 1"
  shows "(sel (headerLoop L cfg 0 cells noIndices) \<noteq> - 1) = (\<exists>c\<in>set cells. M c)"
proof (cases "\<exists>c\<in>set cells. M c")
  case True
  then have "lastMatch M cells (sel (headerLoop L cfg 0 cells noIndices))"
    by (rule headerLoop_lastMatch [of sel L cfg M, OF step])
  then show ?thesis using True by (auto simp: lastMatch_def)
next
  case False
  then have "sel (headerLoop L cfg 0 cells noIndices) = sel noIndices"
    using headerLoop_no_match [of sel L cfg M cells 0 noIndices, OF step] by auto
  then show ?thesis using False none by auto
qed

lemma headerLoop_lower_bound:
  assumes step: "\<And>i col ix. sel (headerCell L cfg i col ix) = (if M col then i else sel ix)"
    and "- 1 \<le> sel ix" "0 \<le> i"
  shows "- 1 \<le> sel (headerLoop L cfg i cells ix)"
  using assms(2,3)
proof (induction cells arbitrary: i ix)
  case Nil
  then show ?case by simp
next
  case (Cons c cells)
  have "- 1 \<le> sel (headerCell L cfg i c ix)" using Cons.prems by (simp add: step)
  then show ?case using Cons.prems by (simp add: Cons.IH)
qed

text \<open>With a header and at least one row, the result of the resolution.\<close>

lemma findColumnIndices_with_header:
  assumes "HasHeader cfg" "records \<noteq> []"
  shows "findColumnIndices L cfg records =
     (if (\<exists>c\<in>set (records ! 0). headerMatches L (TimestampColumn cfg) timestampAliases c)
         \<and> (\<exists>c\<in>set (records ! 0). headerMatches L (LatitudeColumn cfg) latitudeAliases c)
         \<and> (\<exists>c\<in>set (records ! 0). headerMatches L (LongitudeColumn cfg) longitudeAliases c)
      then Inr (headerLoop L cfg 0 (records ! 0) noIndices)
      else Inl MissingRequiredColumn)"
proof -
  have none: "timestamp noIndices = - 1" "latitude noIndices = - 1" "longitude noIndices = - 1"
    by (simp_all add: noIndices_def)
  note r = headerLoop_resolved [of timestamp L cfg, OF headerCell_timestamp none(1), of "records ! 0"]
    headerLoop_resolved [of latitude L cfg, OF headerCell_latitude none(2), of "records ! 0"]
    headerLoop_resolved [of longitude L cfg, OF headerCell_longitude none(3), of "records ! 0"]
  show ?thesis
    using assms r by (auto simp: findColumnIndices_def Let_def)
qed

text \<open>
  Claim C6. For every header-bearing table, column resolution succeeds for a required
  logical field (timestamp, latitude, longitude) exactly when some header cell matches it
  case-insensitively, against the configured name when one is set and otherwise against
  the field's default alias list; and resolution fails with MissingRequiredColumn whenever
  one of the three required fields remains unresolved, and only then.
\<close>

theorem findColumnIndices_header_resolution:
  assumes "HasHeader cfg" and "records \<noteq> []"
  shows
    "(timestamp (headerLoop L cfg 0 (records ! 0) noIndices) \<noteq> - 1)
        = (\<exists>c\<in>set (records ! 0). headerMatches L (TimestampColumn cfg) timestampAliases c)
     \<and> (latitude (headerLoop L cfg 0 (records ! 0) noIndices) \<noteq> - 1)
        = (\<exists>c\<in>set (records ! 0). headerMatches L (LatitudeColumn cfg) latitudeAliases c)
     \<and> (longitude (headerLoop L cfg 0 (records ! 0) noIndices) \<noteq> - 1)
        = (\<exists>c\<in>set (records ! 0). headerMatches L (LongitudeColumn cfg) longitudeAliases c)
     \<and> findColumnIndices L cfg records =
         (if (\<exists>c\<in>set (records ! 0). headerMatches L (TimestampColumn cfg) timestampAliases c)
             \<and> (\<exists>c\<in>set (records ! 0). headerMatches L (LatitudeColumn cfg) latitudeAliases c)
             \<and> (\<exists>c\<in>set (records ! 0). headerMatches L (LongitudeColumn cfg) longitudeAliases c)
          then Inr (headerLoop L cfg 0 (records ! 0) noIndices)
          else Inl MissingRequiredColumn)"
proof -
  have none: "timestamp noIndices = - 1" "latitude noIndices = - 1" "longitude noIndices = - 1"
    by (simp_all add: noIndices_def)
  show ?thesis
    using headerLoop_resolved [of timestamp L cfg, OF headerCell_timestamp none(1), of "records ! 0"]
      headerLoop_resolved [of latitude L cfg, OF headerCell_latitude none(2), of "records ! 0"]
      headerLoop_resolved [of longitude L cfg, OF headerCell_longitude none(3), of "records ! 0"]
      findColumnIndices_with_header [OF assms, of L]
    by simp
qed

text \<open>The scenario of the specification: a header that declares timestamp and latitude only.\<close>

theorem findColumnIndices_header_resolution_witness:
  "HasHeader \<lparr>TimestampColumn = [], LatitudeColumn = [], LongitudeColumn = [], TitleColumn = [],
       DescriptionColumn = [], HasHeader = True, SkipRows = 0\<rparr>
   \<and> [[''timestamp'', ''latitude''], [''2025-10-28T10:00:00Z'', ''37.7749'']] \<noteq> []
   \<and> findColumnIndices sampleLib
        \<lparr>TimestampColumn = [], LatitudeColumn = [], LongitudeColumn = [], TitleColumn = [],
           DescriptionColumn = [], HasHeader = True, SkipRows = 0\<rparr>
        [[''timestamp'', ''latitude''], [''2025-10-28T10:00:00Z'', ''37.7749'']]
      = Inl MissingRequiredColumn
   \<and> timestamp (headerLoop sampleLib
        \<lparr>TimestampColumn = [], LatitudeColumn = [], LongitudeColumn = [], TitleColumn = [],
           DescriptionColumn = [], HasHeader = True, SkipRows = 0\<rparr> 0
        [''timestamp'', ''latitude''] noIndices) \<noteq> - 1
   \<and> longitude (headerLoop sampleLib
        \<lparr>TimestampColumn = [], LatitudeColumn = [], LongitudeColumn = [], TitleColumn = [],
           DescriptionColumn = [], HasHeader = True, SkipRows = 0\<rparr> 0
        [''timestamp'', ''latitude''] noIndices) = - 1"
  using findColumnIndices_header_resolution
    [of "\<lparr>TimestampColumn = [], LatitudeColumn = [], LongitudeColumn = [], TitleColumn = [],
           DescriptionColumn = [], HasHeader = True, SkipRows = 0\<rparr>"
        "[[''timestamp'', ''latitude''], [''2025-10-28T10:00:00Z'', ''37.7749'']]" sampleLib]
  by (simp add: headerMatches_def timestampAliases_def latitudeAliases_def longitudeAliases_def
        sample_eval)

text \<open>
  Claim C10. For every header-bearing table in which more than one header cell matches
  the same logical field, column resolution gives that field the position of the last
  matching header cell, not the first. (The resolved indices are returned when the three
  required fields are resolved.)
\<close>

theorem findColumnIndices_last_match:
  assumes "HasHeader cfg" and "records \<noteq> []" and "findColumnIndices L cfg records = Inr idx"
  shows
    "((\<exists>c\<in>set (records ! 0). headerMatches L (TimestampColumn cfg) timestampAliases c) \<longrightarrow>
        lastMatch (headerMatches L (TimestampColumn cfg) timestampAliases) (records ! 0) (timestamp idx))
     \<and> ((\<exists>c\<in>set (records ! 0). headerMatches L (LatitudeColumn cfg) latitudeAliases c) \<longrightarrow>
        lastMatch (headerMatches L (LatitudeColumn cfg) latitudeAliases) (records ! 0) (latitude idx))
     \<and> ((\<exists>c\<in>set (records ! 0). headerMatches L (LongitudeColumn cfg) longitudeAliases c) \<longrightarrow>
        lastMatch (headerMatches L (LongitudeColumn cfg) longitudeAliases) (records ! 0) (longitude idx))
     \<and> ((\<exists>c\<in>set (records ! 0). optionalMatches L (TitleColumn cfg) c) \<longrightarrow>
        lastMatch (optionalMatches L (TitleColumn cfg)) (records ! 0) (title idx))
     \<and> ((\<exists>c\<in>set (records ! 0). optionalMatches L (DescriptionColumn cfg) c) \<longrightarrow>
        lastMatch (optionalMatches L (DescriptionColumn cfg)) (records ! 0) (description idx))"
proof -
  have idx: "idx = headerLoop L cfg 0 (records ! 0) noIndices"
    using assms by (auto simp: findColumnIndices_def Let_def split: if_splits)
  show ?thesis
    unfolding idx
    using headerLoop_lastMatch [of timestamp L cfg, OF headerCell_timestamp, of "records ! 0" noIndices]
      headerLoop_lastMatch [of latitude L cfg, OF headerCell_latitude, of "records ! 0" noIndices]
      headerLoop_lastMatch [of longitude L cfg, OF headerCell_longitude, of "records ! 0" noIndices]
      headerLoop_lastMatch [of title L cfg, OF headerCell_title, of "records ! 0" noIndices]
      headerLoop_lastMatch [of description L cfg, OF headerCell_description, of "records ! 0" noIndices]
    by blast
qed

text \<open>
  A header where two cells match the timestamp aliases, two the longitude aliases and two
  the configured title name.
\<close>

theorem findColumnIndices_last_match_witness:
  "HasHeader \<lparr>TimestampColumn = [], LatitudeColumn = [], LongitudeColumn = [], TitleColumn = ''name'',
       DescriptionColumn = [], HasHeader = True, SkipRows = 0\<rparr>
   \<and> findColumnIndices sampleLib
        \<lparr>TimestampColumn = [], LatitudeColumn = [], LongitudeColumn = [], TitleColumn = ''name'',
           DescriptionColumn = [], HasHeader = True, SkipRows = 0\<rparr>
        [[''time'', ''lat'', ''lng'', ''Timestamp'', ''Name'', ''lon'', ''name'']]
      = Inr \<lparr>timestamp = 3, latitude = 1, longitude = 5, title = 6, description = - 1\<rparr>
   \<and> lastMatch (headerMatches sampleLib [] timestampAliases)
        [''time'', ''lat'', ''lng'', ''Timestamp'', ''Name'', ''lon'', ''name''] 3
   \<and> lastMatch (headerMatches sampleLib [] longitudeAliases)
        [''time'', ''lat'', ''lng'', ''Timestamp'', ''Name'', ''lon'', ''name''] 5
   \<and> lastMatch (optionalMatches sampleLib ''name'')
        [''time'', ''lat'', ''lng'', ''Timestamp'', ''Name'', ''lon'', ''name''] 6"
proof -
  let ?cfg = "\<lparr>TimestampColumn = [], LatitudeColumn = [], LongitudeColumn = [], TitleColumn = ''name'',
           DescriptionColumn = [], HasHeader = True, SkipRows = 0\<rparr>"
  let ?records = "[[''time'', ''lat'', ''lng'', ''Timestamp'', ''Name'', ''lon'', ''name'']]"
  have h: "HasHeader ?cfg" by simp
  have ne: "?records \<noteq> []" by simp
  have r: "findColumnIndices sampleLib ?cfg ?records
      = Inr \<lparr>timestamp = 3, latitude = 1, longitude = 5, title = 6, description = - 1\<rparr>"
    by (simp add: findColumnIndices_def headerCell_def matchesColumn_def noIndices_def sample_eval)
  have m: "\<exists>c\<in>set (?records ! 0). headerMatches sampleLib (TimestampColumn ?cfg) timestampAliases c"
    "\<exists>c\<in>set (?records ! 0). headerMatches sampleLib (LongitudeColumn ?cfg) longitudeAliases c"
    "\<exists>c\<in>set (?records ! 0). optionalMatches sampleLib (TitleColumn ?cfg) c"
    by (simp_all add: headerMatches_def optionalMatches_def timestampAliases_def longitudeAliases_def
          sample_eval)
  have c: "lastMatch (headerMatches sampleLib (TimestampColumn ?cfg) timestampAliases) (?records ! 0)
             (timestamp \<lparr>timestamp = 3, latitude = 1, longitude = 5, title = 6, description = - 1\<rparr>)
         \<and> lastMatch (headerMatches sampleLib (LongitudeColumn ?cfg) longitudeAliases) (?records ! 0)
             (longitude \<lparr>timestamp = 3, latitude = 1, longitude = 5, title = 6, description = - 1\<rparr>)
         \<and> lastMatch (optionalMatches sampleLib (TitleColumn ?cfg)) (?records ! 0)
             (title \<lparr>timestamp = 3, latitude = 1, longitude = 5, title = 6, description = - 1\<rparr>)"
    using findColumnIndices_last_match [OF h ne r] m by blast
  show ?thesis
    using c r by simp
qed

section \<open>The orchestrator: parseRecords\<close>

text \<open>The indices that column resolution returns are positions.\<close>

lemma findColumnIndices_bounds:
  assumes "findColumnIndices L cfg records = Inr idx"
  shows "0 \<le> timestamp idx \<and> 0 \<le> latitude idx \<and> 0 \<le> longitude idx
         \<and> - 1 \<le> title idx \<and> - 1 \<le> description idx"
proof (cases "HasHeader cfg \<and> length records > 0")
  case True
  then have idx: "idx = headerLoop L cfg 0 (records ! 0) noIndices"
    and ne: "timestamp idx \<noteq> - 1" "latitude idx \<noteq> - 1" "longitude idx \<noteq> - 1"
    using assms by (auto simp: findColumnIndices_def Let_def split: if_splits)
  have lb: "- 1 \<le> timestamp idx" "- 1 \<le> latitude idx" "- 1 \<le> longitude idx"
    "- 1 \<le> title idx" "- 1 \<le> description idx"
    unfolding idx
    using headerLoop_lower_bound [of timestamp L cfg, OF headerCell_timestamp, of noIndices 0 "records ! 0"]
      headerLoop_lower_bound [of latitude L cfg, OF headerCell_latitude, of noIndices 0 "records ! 0"]
      headerLoop_lower_bound [of longitude L cfg, OF headerCell_longitude, of noIndices 0 "records ! 0"]
      headerLoop_lower_bound [of title L cfg, OF headerCell_title, of noIndices 0 "records ! 0"]
      headerLoop_lower_bound [of description L cfg, OF headerCell_description, of noIndices 0 "records ! 0"]
    by (simp_all add: noIndices_def)
  show ?thesis using lb ne by auto
next
  case False
  then have "idx = positionalIndices records"
    using assms by (auto simp: findColumnIndices_def Let_def split: if_splits)
  then show ?thesis by (simp add: positionalIndices_def noIndices_def Let_def)
qed

lemma findColumnIndices_error:
  "findColumnIndices L cfg records = Inl e \<Longrightarrow> e = MissingRequiredColumn"
  by (auto simp: findColumnIndices_def Let_def split: if_splits)

text \<open>With positions for indices, reading the cells of a row that is long enough never panics.\<close>

lemma cell_in_row: "0 \<le> i \<Longrightarrow> i < int (length row) \<Longrightarrow> cell row i = Inr (row ! nat i)"
  by (simp add: cell_def)

lemma optionalCell_no_panic: "- 1 \<le> i \<Longrightarrow> \<exists>text. optionalCell L row i = Inr text"
  by (auto simp: optionalCell_def cell_def)

lemma parseRecord_no_panic:
  assumes "0 \<le> timestamp idx" "0 \<le> latitude idx" "0 \<le> longitude idx"
    "- 1 \<le> title idx" "- 1 \<le> description idx"
  shows "parseRecord L proc row idx rowNum \<noteq> Inl IndexOutOfRangePanic"
proof (cases "int (length row) \<le> timestamp idx \<or> int (length row) \<le> latitude idx
         \<or> int (length row) \<le> longitude idx")
  case True
  then show ?thesis by (auto simp: parseRecord_def)
next
  case False
  obtain ttl desc where o: "optionalCell L row (title idx) = Inr ttl"
    "optionalCell L row (description idx) = Inr desc"
    using optionalCell_no_panic assms(4,5) by blast
  show ?thesis
    using False assms(1-3) o
    by (simp add: parseRecord_def cell_in_row split: sum.splits option.splits)
qed

lemma parseRecord_rowNum: "parseRecord L proc row idx rowNum = parseRecord L proc row idx 0"
  by (simp add: parseRecord_def)

text \<open>The loop over the data rows appends the points of the rows that pass, in order.\<close>

lemma parseRows_validPoints:
  assumes "0 \<le> timestamp idx" "0 \<le> latitude idx" "0 \<le> longitude idx"
    "- 1 \<le> title idx" "- 1 \<le> description idx"
  shows "parseRows L proc idx rowNum rows points = Inr (points @ validPoints L proc idx rows)"
proof (induction rows arbitrary: rowNum points)
  case Nil
  then show ?case by (simp add: validPoints_def)
next
  case (Cons row rows)
  have np: "parseRecord L proc row idx 0 \<noteq> Inl IndexOutOfRangePanic"
    using assms by (rule parseRecord_no_panic)
  show ?case
  proof (cases "parseRecord L proc row idx 0")
    case (Inl err)
    then have "err \<noteq> IndexOutOfRangePanic" using np by simp
    then show ?thesis
      using Inl Cons.IH
      by (simp add: parseRecord_rowNum [of L proc row idx rowNum] validPoints_def passesValidation_def)
  next
    case (Inr point)
    then show ?thesis
      using Cons.IH
      by (simp add: parseRecord_rowNum [of L proc row idx rowNum] validPoints_def passesValidation_def)
  qed
qed

lemma parseRows_error: "parseRows L proc idx rowNum rows points = Inl e \<Longrightarrow> e = IndexOutOfRangePanic"
  by (induction rows arbitrary: rowNum points) (auto split: sum.splits if_splits)

lemma length_validPoints:
  "length (validPoints L proc idx rows) = length (filter (passesValidation L proc idx) rows)"
  by (simp add: validPoints_def)

text \<open>Unfolding the reader on a concrete table.\<close>

lemmas reader_eval = parseRecords_def skipRows_def dataRows_def findColumnIndices_def headerCell_def
  matchesColumn_def noIndices_def positionalIndices_def parseRecord_def cell_def optionalCell_def
  parseTimestamp_def parseDefaultTimestamp_def defaultFormats_def passesValidation_def validPoints_def
  RemoveDuplicates_def coordKey_def seen_at_def

text \<open>
  Claim C1, as the specification words it: when column resolution succeeds, the batch
  fails if and only if no row passes record validation, and otherwise the result has as
  many points as rows pass. The code has no such failure, and removes duplicates after
  the pass when asked to. First table: the header resolves and the only data row has a
  timestamp no attempt reads; no row passes, and the result is the empty collection, not
  an error. Second table (the package's test with duplicates): three rows pass and the
  result has two points.
\<close>

theorem parseRecords_zero_rows_counterexample:
  "findColumnIndices sampleLib
      \<lparr>TimestampColumn = [], LatitudeColumn = [], LongitudeColumn = [],
         TitleColumn = [], DescriptionColumn = [], HasHeader = True, SkipRows = 0\<rparr>
      [[''timestamp'', ''latitude'', ''longitude''], [''invalid-time'', ''37.7749'', ''-122.4194'']]
    = Inr \<lparr>timestamp = 0, latitude = 1, longitude = 2, title = - 1, description = - 1\<rparr>
   \<and> filter (passesValidation sampleLib
        \<lparr>proc_RemoveDuplicates = False, TimestampFormats = [''2006-01-02T15:04:05Z'']\<rparr>
        \<lparr>timestamp = 0, latitude = 1, longitude = 2, title = - 1, description = - 1\<rparr>)
        [[''invalid-time'', ''37.7749'', ''-122.4194'']] = []
   \<and> parseRecords sampleLib
      \<lparr>TimestampColumn = [], LatitudeColumn = [], LongitudeColumn = [],
         TitleColumn = [], DescriptionColumn = [], HasHeader = True, SkipRows = 0\<rparr>
      \<lparr>proc_RemoveDuplicates = False, TimestampFormats = [''2006-01-02T15:04:05Z'']\<rparr>
      [[''timestamp'', ''latitude'', ''longitude''], [''invalid-time'', ''37.7749'', ''-122.4194'']]
    = Inr []
   \<and> length (filter (passesValidation sampleLib
        \<lparr>proc_RemoveDuplicates = True, TimestampFormats = [''2006-01-02T15:04:05Z'']\<rparr>
        \<lparr>timestamp = 0, latitude = 1, longitude = 2, title = - 1, description = - 1\<rparr>)
        [[''2025-10-28T10:00:00Z'', ''37.7749'', ''-122.4194''],
         [''2025-10-28T11:00:00Z'', ''37.7749'', ''-122.4194''],
         [''2025-10-28T12:00:00Z'', ''37.8044'', ''-122.2711'']]) = 3
   \<and> parseRecords sampleLib
      \<lparr>TimestampColumn = [], LatitudeColumn = [], LongitudeColumn = [],
         TitleColumn = [], DescriptionColumn = [], HasHeader = True, SkipRows = 0\<rparr>
      \<lparr>proc_RemoveDuplicates = True, TimestampFormats = [''2006-01-02T15:04:05Z'']\<rparr>
      [[''timestamp'', ''latitude'', ''longitude''],
       [''2025-10-28T10:00:00Z'', ''37.7749'', ''-122.4194''],
       [''2025-10-28T11:00:00Z'', ''37.7749'', ''-122.4194''],
       [''2025-10-28T12:00:00Z'', ''37.8044'', ''-122.2711'']]
    = Inr [\<lparr>Timestamp = Time 63897242400 0, Latitude = 0x4042E32FEC56D5D0,
             Longitude = 0xC05E9AD77318FC50, Title = [], Description = []\<rparr>,
           \<lparr>Timestamp = Time 63897249600 0, Latitude = 0x4042E6F694467382,
             Longitude = 0xC05E9159B3D07C85, Title = [], Description = []\<rparr>]"
  by (simp add: reader_eval sample_eval)

text \<open>
  Claim C1, amended. For every raw table that has, after the skip, at least one row (two
  when a header is declared) and whose column resolution succeeds, the orchestrator does
  not fail, also when no row passes record validation. Its result is the points of the
  rows that pass, in file order, each failing row left out, with duplicates removed when
  the configuration asks for it. So without duplicate removal the length of the result is
  the number of rows that pass record validation.
\<close>

theorem parseRecords_valid_rows:
  assumes "skipRows cfg records \<noteq> []"
    and "HasHeader cfg \<longrightarrow> 2 \<le> length (skipRows cfg records)"
    and "findColumnIndices L cfg (skipRows cfg records) = Inr idx"
  shows "parseRecords L cfg proc records =
           Inr (if proc_RemoveDuplicates proc
                then RemoveDuplicates L (validPoints L proc idx (dataRows cfg records))
                else validPoints L proc idx (dataRows cfg records))
         \<and> length (validPoints L proc idx (dataRows cfg records))
             = length (filter (passesValidation L proc idx) (dataRows cfg records))
         \<and> (\<not> proc_RemoveDuplicates proc \<longrightarrow>
              (\<exists>points. parseRecords L cfg proc records = Inr points
                 \<and> length points = length (filter (passesValidation L proc idx) (dataRows cfg records))))"
proof -
  have b: "0 \<le> timestamp idx" "0 \<le> latitude idx" "0 \<le> longitude idx"
    "- 1 \<le> title idx" "- 1 \<le> description idx"
    using findColumnIndices_bounds [OF assms(3)] by auto
  have len: "\<not> length (skipRows cfg records) < 1" using assms(1) by (cases "skipRows cfg records") auto
  have hdr: "\<not> (HasHeader cfg \<and> length (skipRows cfg records) < 2)" using assms(2) by auto
  have rows: "parseRows L proc idx (int (if HasHeader cfg then 1 else 0) + 1)
               (drop (if HasHeader cfg then 1 else 0) (skipRows cfg records)) []
             = Inr (validPoints L proc idx (dataRows cfg records))"
    using parseRows_validPoints [OF b, of L proc _ _ "[]"] by (simp add: dataRows_def)
  have res: "parseRecords L cfg proc records =
           Inr (if proc_RemoveDuplicates proc
                then RemoveDuplicates L (validPoints L proc idx (dataRows cfg records))
                else validPoints L proc idx (dataRows cfg records))"
    unfolding parseRecords_def Let_def using len hdr assms(3) rows by simp
  show ?thesis using res by (simp add: length_validPoints)
qed

text \<open>
  The package's table with a header and titles, and between its two rows one whose
  timestamp no attempt reads: two of three rows pass.
\<close>

theorem parseRecords_valid_rows_witness:
  "findColumnIndices sampleLib
      \<lparr>TimestampColumn = ''timestamp'', LatitudeColumn = ''latitude'', LongitudeColumn = ''longitude'',
         TitleColumn = ''title'', DescriptionColumn = ''description'', HasHeader = True, SkipRows = 0\<rparr>
      [[''timestamp'', ''latitude'', ''longitude'', ''title'', ''description''],
       [''2025-10-28T10:00:00Z'', ''37.7749'', ''-122.4194'', ''Golden Gate Park'', ''Starting point''],
       [''not a time'', ''37.7749'', ''-122.4194'', ''Nowhere'', ''Bad row''],
       [''2025-10-28T11:00:00Z'', ''37.8044'', ''-122.2711'', ''Bay Bridge'', ''Ending point'']]
    = Inr \<lparr>timestamp = 0, latitude = 1, longitude = 2, title = 3, description = 4\<rparr>
   \<and> parseRecords sampleLib
      \<lparr>TimestampColumn = ''timestamp'', LatitudeColumn = ''latitude'', LongitudeColumn = ''longitude'',
         TitleColumn = ''title'', DescriptionColumn = ''description'', HasHeader = True, SkipRows = 0\<rparr>
      \<lparr>proc_RemoveDuplicates = False, TimestampFormats = [''2006-01-02T15:04:05Z'']\<rparr>
      [[''timestamp'', ''latitude'', ''longitude'', ''title'', ''description''],
       [''2025-10-28T10:00:00Z'', ''37.7749'', ''-122.4194'', ''Golden Gate Park'', ''Starting point''],
       [''not a time'', ''37.7749'', ''-122.4194'', ''Nowhere'', ''Bad row''],
       [''2025-10-28T11:00:00Z'', ''37.8044'', ''-122.2711'', ''Bay Bridge'', ''Ending point'']]
    = Inr [\<lparr>Timestamp = Time 63897242400 0, Latitude = 0x4042E32FEC56D5D0,
             Longitude = 0xC05E9AD77318FC50, Title = ''Golden Gate Park'', Description = ''Starting point''\<rparr>,
           \<lparr>Timestamp = Time 63897246000 0, Latitude = 0x4042E6F694467382,
             Longitude = 0xC05E9159B3D07C85, Title = ''Bay Bridge'', Description = ''Ending point''\<rparr>]
   \<and> length (filter (passesValidation sampleLib
        \<lparr>proc_RemoveDuplicates = False, TimestampFormats = [''2006-01-02T15:04:05Z'']\<rparr>
        \<lparr>timestamp = 0, latitude = 1, longitude = 2, title = 3, description = 4\<rparr>)
        [[''2025-10-28T10:00:00Z'', ''37.7749'', ''-122.4194'', ''Golden Gate Park'', ''Starting point''],
         [''not a time'', ''37.7749'', ''-122.4194'', ''Nowhere'', ''Bad row''],
         [''2025-10-28T11:00:00Z'', ''37.8044'', ''-122.2711'', ''Bay Bridge'', ''Ending point'']]) = 2"
proof -
  let ?cfg = "\<lparr>TimestampColumn = ''timestamp'', LatitudeColumn = ''latitude'', LongitudeColumn = ''longitude'',
         TitleColumn = ''title'', DescriptionColumn = ''description'', HasHeader = True, SkipRows = 0\<rparr>"
  let ?proc = "\<lparr>proc_RemoveDuplicates = False, TimestampFormats = [''2006-01-02T15:04:05Z'']\<rparr>"
  let ?records = "[[''timestamp'', ''latitude'', ''longitude'', ''title'', ''description''],
       [''2025-10-28T10:00:00Z'', ''37.7749'', ''-122.4194'', ''Golden Gate Park'', ''Starting point''],
       [''not a time'', ''37.7749'', ''-122.4194'', ''Nowhere'', ''Bad row''],
       [''2025-10-28T11:00:00Z'', ''37.8044'', ''-122.2711'', ''Bay Bridge'', ''Ending point'']]"
  let ?idx = "\<lparr>timestamp = 0, latitude = 1, longitude = 2, title = 3, description = 4\<rparr>"
  have skip: "skipRows ?cfg ?records = ?records" by (simp add: skipRows_def)
  have a1: "skipRows ?cfg ?records \<noteq> []" by (simp add: skipRows_def)
  have a2: "HasHeader ?cfg \<longrightarrow> 2 \<le> length (skipRows ?cfg ?records)" by (simp add: skipRows_def)
  have r: "findColumnIndices sampleLib ?cfg ?records = Inr ?idx"
    by (simp add: findColumnIndices_def headerCell_def matchesColumn_def noIndices_def sample_eval)
  have a3: "findColumnIndices sampleLib ?cfg (skipRows ?cfg ?records) = Inr ?idx"
    unfolding skip by (rule r)
  have rows: "dataRows ?cfg ?records = tl ?records" by (simp add: dataRows_def skipRows_def)
  have v: "validPoints sampleLib ?proc ?idx (tl ?records)
     = [\<lparr>Timestamp = Time 63897242400 0, Latitude = 0x4042E32FEC56D5D0,
             Longitude = 0xC05E9AD77318FC50, Title = ''Golden Gate Park'', Description = ''Starting point''\<rparr>,
           \<lparr>Timestamp = Time 63897246000 0, Latitude = 0x4042E6F694467382,
             Longitude = 0xC05E9159B3D07C85, Title = ''Bay Bridge'', Description = ''Ending point''\<rparr>]"
    by (simp add: validPoints_def passesValidation_def parseRecord_def cell_def optionalCell_def
          parseTimestamp_def parseDefaultTimestamp_def defaultFormats_def sample_eval)
  note t = parseRecords_valid_rows [OF a1 a2 a3, of ?proc]
  show ?thesis
    using t r v unfolding rows by simp
qed

text \<open>
  Claim C3, as the specification words it: the skip count is applied unconditionally, and
  ingestion fails with EmptyOrInsufficientData when the count is at least the number of
  raw rows. The code skips only when the count is smaller than the number of rows. A
  table of one row without header and a skip count of 1: no row is skipped and the row
  is parsed.
\<close>

theorem parseRecords_skip_counterexample:
  "int (length [[''2025-10-28T10:00:00Z'', ''37.7749'', ''-122.4194'']])
     \<le> SkipRows \<lparr>TimestampColumn = [], LatitudeColumn = [], LongitudeColumn = [],
         TitleColumn = [], DescriptionColumn = [], HasHeader = False, SkipRows = 1\<rparr>
   \<and> parseRecords sampleLib
      \<lparr>TimestampColumn = [], LatitudeColumn = [], LongitudeColumn = [],
         TitleColumn = [], DescriptionColumn = [], HasHeader = False, SkipRows = 1\<rparr>
      \<lparr>proc_RemoveDuplicates = False, TimestampFormats = [''2006-01-02T15:04:05Z'']\<rparr>
      [[''2025-10-28T10:00:00Z'', ''37.7749'', ''-122.4194'']]
    = Inr [\<lparr>Timestamp = Time 63897242400 0, Latitude = 0x4042E32FEC56D5D0,
             Longitude = 0xC05E9AD77318FC50, Title = [], Description = []\<rparr>]"
  by (simp add: reader_eval sample_eval)

text \<open>The skip count is read by the first statement only.\<close>

lemma headerLoop_SkipRows:
  "headerLoop L (cfg\<lparr>SkipRows := n\<rparr>) i cells indices = headerLoop L cfg i cells indices"
  by (induction cells arbitrary: i indices) (simp_all add: headerCell_def)

lemma findColumnIndices_SkipRows:
  "findColumnIndices L (cfg\<lparr>SkipRows := n\<rparr>) rows = findColumnIndices L cfg rows"
  by (simp add: findColumnIndices_def headerLoop_SkipRows)

lemma skipRows_zero: "skipRows (cfg\<lparr>SkipRows := 0\<rparr>) rows = rows"
  by (simp add: skipRows_def)

lemma parseRecords_skip_first:
  "parseRecords L cfg proc records
     = parseRecords L (cfg\<lparr>SkipRows := 0\<rparr>) proc (skipRows cfg records)"
  unfolding parseRecords_def skipRows_zero findColumnIndices_SkipRows
  by (simp add: Let_def)

text \<open>
  Claim C3, amended. Before any header or data interpretation the orchestrator skips the
  configured number of rows when that number is positive and smaller than the number of
  raw rows, and skips no row otherwise: the row-count tests, the column resolution and the
  parsing of the rows all read the table that is left, so ingestion of a table is
  ingestion, without skip, of the table that is left. Ingestion fails with
  EmptyOrInsufficientData exactly when no row is left, which is when the table is empty,
  or a header is declared and fewer than two rows are left.
\<close>

theorem parseRecords_EmptyOrInsufficientData:
  "parseRecords L cfg proc records
     = parseRecords L (cfg\<lparr>SkipRows := 0\<rparr>) proc (skipRows cfg records)
   \<and> (\<exists>e. parseRecords L cfg proc records = Inl e \<and> EmptyOrInsufficientData e)
      = (skipRows cfg records = [] \<or> HasHeader cfg \<and> length (skipRows cfg records) < 2)
   \<and> skipRows cfg records
      = (if 0 < SkipRows cfg \<and> SkipRows cfg < int (length records)
         then drop (nat (SkipRows cfg)) records else records)
   \<and> (skipRows cfg records = []) = (records = [])"
proof -
  have other: "\<And>e. \<not> length (skipRows cfg records) < 1 \<Longrightarrow>
      \<not> (HasHeader cfg \<and> length (skipRows cfg records) < 2) \<Longrightarrow>
      parseRecords L cfg proc records = Inl e \<Longrightarrow> \<not> EmptyOrInsufficientData e"
    unfolding parseRecords_def Let_def
    by (auto simp: EmptyOrInsufficientData_def split: sum.splits
          dest: findColumnIndices_error parseRows_error)
  have a: "(\<exists>e. parseRecords L cfg proc records = Inl e \<and> EmptyOrInsufficientData e)
      = (skipRows cfg records = [] \<or> HasHeader cfg \<and> length (skipRows cfg records) < 2)"
  proof (cases "length (skipRows cfg records) < 1")
    case True
    then show ?thesis by (simp add: parseRecords_def EmptyOrInsufficientData_def)
  next
    case False
    note nonempty = this
    show ?thesis
    proof (cases "HasHeader cfg \<and> length (skipRows cfg records) < 2")
      case True
      then show ?thesis using nonempty by (simp add: parseRecords_def EmptyOrInsufficientData_def)
    next
      case False
      then show ?thesis using nonempty other by auto
    qed
  qed
  have c: "(skipRows cfg records = []) = (records = [])"
    by (auto simp: skipRows_def)
  have d: "skipRows cfg records
      = (if 0 < SkipRows cfg \<and> SkipRows cfg < int (length records)
         then drop (nat (SkipRows cfg)) records else records)"
    by (simp add: skipRows_def)
  show ?thesis using parseRecords_skip_first [of L cfg proc records] a c d by blast
qed

text \<open>
  A comment line, a header and a row, with a skip count of 1: the header is read from the
  second line. Without the data row, the skip leaves fewer rows than the header asks for.
\<close>

lemma parseRecords_skip_example:
  "parseRecords sampleLib
      \<lparr>TimestampColumn = [], LatitudeColumn = [], LongitudeColumn = [],
         TitleColumn = [], DescriptionColumn = [], HasHeader = True, SkipRows = 1\<rparr>
      \<lparr>proc_RemoveDuplicates = False, TimestampFormats = [''2006-01-02T15:04:05Z'']\<rparr>
      [[''# comment'', ''x'', ''y''],
       [''timestamp'', ''latitude'', ''longitude''],
       [''2025-10-28T10:00:00Z'', ''37.7749'', ''-122.4194'']]
    = Inr [\<lparr>Timestamp = Time 63897242400 0, Latitude = 0x4042E32FEC56D5D0,
             Longitude = 0xC05E9AD77318FC50, Title = [], Description = []\<rparr>]
   \<and> parseRecords sampleLib
      \<lparr>TimestampColumn = [], LatitudeColumn = [], LongitudeColumn = [],
         TitleColumn = [], DescriptionColumn = [], HasHeader = True, SkipRows = 1\<rparr>
      \<lparr>proc_RemoveDuplicates = False, TimestampFormats = [''2006-01-02T15:04:05Z'']\<rparr>
      [[''# comment'', ''x'', ''y''],
       [''timestamp'', ''latitude'', ''longitude'']]
    = Inl NoHeaderAndDataRow"
  by (simp add: reader_eval sample_eval)

section \<open>SortByTimestamp\<close>

lemma Before_transitiveOrdering:
  "transitiveOrdering (\<lambda>a b. Before (Timestamp a) (Timestamp b))"
  unfolding transitiveOrdering_def Before_def by auto

text \<open>Insertion sort meets the documentation of the library's sort.\<close>

lemma mset_insertBack: "mset (insertBack lt x ys) = add_mset x (mset ys)"
  by (induction ys) auto

lemma set_insertBack: "set (insertBack lt x ys) = insert x (set ys)"
  by (induction ys) auto

lemma mset_foldl_insertBack:
  "mset (foldl (\<lambda>done x. insertBack lt x done) acc xs) = mset acc + mset xs"
  by (induction xs arbitrary: acc) (auto simp: mset_insertBack)

lemma sorted_insertBack:
  assumes ord: "transitiveOrdering lt"
    and "sorted_wrt (\<lambda>a b. \<not> lt a b) ys"
  shows "sorted_wrt (\<lambda>a b. \<not> lt a b) (insertBack lt x ys)"
  using assms(2)
proof (induction ys)
  case Nil
  then show ?case by simp
next
  case (Cons y ys)
  have asym: "\<And>a b. lt a b \<Longrightarrow> \<not> lt b a"
    using ord unfolding transitiveOrdering_def by blast
  have neg: "\<And>a b c. \<not> lt a b \<Longrightarrow> \<not> lt b c \<Longrightarrow> \<not> lt a c"
    using ord unfolding transitiveOrdering_def by blast
  show ?case
  proof (cases "lt x y")
    case True
    then show ?thesis
      using Cons asym by (auto simp: set_insertBack)
  next
    case False
    have "\<forall>z\<in>set ys. \<not> lt x z"
      using False Cons.prems neg by auto
    then show ?thesis using False Cons.prems by auto
  qed
qed

lemma sorted_foldl_insertBack:
  assumes "transitiveOrdering lt" "sorted_wrt (\<lambda>a b. \<not> lt a b) acc"
  shows "sorted_wrt (\<lambda>a b. \<not> lt a b) (foldl (\<lambda>done x. insertBack lt x done) acc xs)"
  using assms(2)
  by (induction xs arbitrary: acc) (simp_all add: sorted_insertBack [OF assms(1)])

lemma insertionSort_meets_contract:
  "mset (insertionSort lt x) = mset x
   \<and> (transitiveOrdering lt \<longrightarrow> sorted_wrt (\<lambda>a b. \<not> lt b a) (insertionSort lt x))"
  using sorted_foldl_insertBack [of lt "[]" x]
  by (simp add: insertionSort_def mset_foldl_insertBack sorted_wrt_rev)

lemma sampleLib_contract: "sort_Slice_contract sampleLib"
  unfolding sort_Slice_contract_def
proof (intro allI)
  fix lt :: "Point \<Rightarrow> Point \<Rightarrow> bool" and x :: Points
  show "mset (sort_Slice sampleLib lt x) = mset x \<and>
        (transitiveOrdering lt \<longrightarrow> sorted_wrt (\<lambda>a b. \<not> lt b a) (sort_Slice sampleLib lt x))"
    using insertionSort_meets_contract [of lt x]
    by (simp add: sampleLib_def)
qed

lemma sampleLibRev_contract: "sort_Slice_contract sampleLibRev"
  unfolding sort_Slice_contract_def
proof (intro allI)
  fix lt :: "Point \<Rightarrow> Point \<Rightarrow> bool" and x :: Points
  show "mset (sort_Slice sampleLibRev lt x) = mset x \<and>
        (transitiveOrdering lt \<longrightarrow> sorted_wrt (\<lambda>a b. \<not> lt b a) (sort_Slice sampleLibRev lt x))"
    using insertionSort_meets_contract [of lt "rev x"]
    by (simp add: sampleLibRev_def sampleLib_def)
qed

text \<open>
  Claim C2, as the specification words it: the sort is stable, points with equal timestamps
  keep their prior relative order. The method calls \<^verbatim>\<open>sort.Slice\<close>, not \<^verbatim>\<open>sort.SliceStable\<close>.
  On the thirteen points, twelve of one timestamp and then an earlier one, the library's
  algorithm partitions around the pivot p6 and moves p0 and p1: after the sort p12 is
  first, as it must be, and the twelve others stand in the order p6, p2, p3, p4, p5, p0,
  p7, p8, p9, p10, p11, p1. The last part says that the model of the algorithm ran to its
  end on this input.
\<close>

theorem SortByTimestamp_stable_counterexample:
  "map Title thirteenPoints
     = [''p0'', ''p1'', ''p2'', ''p3'', ''p4'', ''p5'', ''p6'', ''p7'', ''p8'', ''p9'', ''p10'', ''p11'', ''p12'']
   \<and> map Timestamp thirteenPoints = replicate 12 (Time 63897246000 0) @ [Time 63897242400 0]
   \<and> map Title (SortByTimestamp pdqsortLib thirteenPoints)
     = [''p12'', ''p6'', ''p2'', ''p3'', ''p4'', ''p5'', ''p0'', ''p7'', ''p8'', ''p9'', ''p10'', ''p11'', ''p1'']
   \<and> pdqsort_Slice (\<lambda>a b. Before (Timestamp a) (Timestamp b)) thirteenPoints
     = Some (SortByTimestamp pdqsortLib thirteenPoints)"
proof -
  have run: "pdqsort_Slice (\<lambda>a b. Before (Timestamp a) (Timestamp b)) thirteenPoints
     = Some (map (\<lambda>k. thirteenPoints ! k) [12, 6, 2, 3, 4, 5, 0, 7, 8, 9, 10, 11, 1])"
    by (simp add: thirteenPoints_def pdqsort_eval Before_def Let_def)
  have lib: "SortByTimestamp pdqsortLib thirteenPoints
     = map (\<lambda>k. thirteenPoints ! k) [12, 6, 2, 3, 4, 5, 0, 7, 8, 9, 10, 11, 1]"
    unfolding SortByTimestamp_def pdqsortLib_def using run by simp
  have titles: "map Title thirteenPoints
     = [''p0'', ''p1'', ''p2'', ''p3'', ''p4'', ''p5'', ''p6'', ''p7'', ''p8'', ''p9'', ''p10'', ''p11'', ''p12'']"
    by (simp add: thirteenPoints_def)
  have times: "map Timestamp thirteenPoints = replicate 12 (Time 63897246000 0) @ [Time 63897242400 0]"
    by (simp add: thirteenPoints_def numeral_eq_Suc)
  have out: "map Title (map (\<lambda>k. thirteenPoints ! k) [12, 6, 2, 3, 4, 5, 0, 7, 8, 9, 10, 11, 1])
     = [''p12'', ''p6'', ''p2'', ''p3'', ''p4'', ''p5'', ''p0'', ''p7'', ''p8'', ''p9'', ''p10'', ''p11'', ''p1'']"
    by (simp add: thirteenPoints_def)
  show ?thesis
    unfolding lib using run titles times out by simp
qed

text \<open>
  The documentation of \<^verbatim>\<open>sort.Slice\<close> does not promise more: a sort that meets it may
  exchange two points of one timestamp.
\<close>

lemma SortByTimestamp_documentation_example:
  "sort_Slice_contract sampleLibRev
   \<and> SortByTimestamp sampleLibRev
       [\<lparr>Timestamp = Time 63897242400 0, Latitude = 0x3FF0000000000000, Longitude = 0x3FF0000000000000,
          Title = ''first'', Description = []\<rparr>,
        \<lparr>Timestamp = Time 63897242400 0, Latitude = 0x4000000000000000, Longitude = 0x4000000000000000,
          Title = ''second'', Description = []\<rparr>]
     = [\<lparr>Timestamp = Time 63897242400 0, Latitude = 0x4000000000000000, Longitude = 0x4000000000000000,
          Title = ''second'', Description = []\<rparr>,
        \<lparr>Timestamp = Time 63897242400 0, Latitude = 0x3FF0000000000000, Longitude = 0x3FF0000000000000,
          Title = ''first'', Description = []\<rparr>]"
  using sampleLibRev_contract
  by (simp add: SortByTimestamp_def sampleLibRev_def sampleLib_def insertionSort_def Before_def)

text \<open>
  Claim C2, amended. For every point collection, SortByTimestamp sorts the collection in
  place into non-decreasing order by timestamp: the result holds the same points, as many
  times each, and no point is before a point that precedes it. The order of points with
  equal timestamps is the one \<^verbatim>\<open>sort.Slice\<close> leaves, which is not guaranteed to be the prior
  one.
\<close>

theorem SortByTimestamp_sorted:
  assumes "sort_Slice_contract L"
  shows "sorted_wrt (\<lambda>a b. \<not> Before (Timestamp b) (Timestamp a)) (SortByTimestamp L p)
         \<and> mset (SortByTimestamp L p) = mset p
         \<and> length (SortByTimestamp L p) = length p"
proof -
  have m: "mset (SortByTimestamp L p) = mset p"
    using assms by (simp add: sort_Slice_contract_def SortByTimestamp_def)
  have s: "sorted_wrt (\<lambda>a b. \<not> Before (Timestamp b) (Timestamp a)) (SortByTimestamp L p)"
    using assms Before_transitiveOrdering
    unfolding sort_Slice_contract_def SortByTimestamp_def by blast
  have "length (SortByTimestamp L p) = length p"
    using m by (rule mset_eq_length)
  then show ?thesis using m s by simp
qed

text \<open>The collection of the package's test: two hours later, now, one hour later.\<close>

theorem SortByTimestamp_sorted_witness:
  "sort_Slice_contract sampleLib
   \<and> SortByTimestamp sampleLib
       [\<lparr>Timestamp = Time 63897249600 0, Latitude = 0x4008000000000000, Longitude = 0x4008000000000000,
          Title = [], Description = []\<rparr>,
        \<lparr>Timestamp = Time 63897242400 0, Latitude = 0x3FF0000000000000, Longitude = 0x3FF0000000000000,
          Title = [], Description = []\<rparr>,
        \<lparr>Timestamp = Time 63897246000 0, Latitude = 0x4000000000000000, Longitude = 0x4000000000000000,
          Title = [], Description = []\<rparr>]
     = [\<lparr>Timestamp = Time 63897242400 0, Latitude = 0x3FF0000000000000, Longitude = 0x3FF0000000000000,
          Title = [], Description = []\<rparr>,
        \<lparr>Timestamp = Time 63897246000 0, Latitude = 0x4000000000000000, Longitude = 0x4000000000000000,
          Title = [], Description = []\<rparr>,
        \<lparr>Timestamp = Time 63897249600 0, Latitude = 0x4008000000000000, Longitude = 0x4008000000000000,
          Title = [], Description = []\<rparr>]
   \<and> sorted_wrt (\<lambda>a b. \<not> Before (Timestamp b) (Timestamp a))
       (SortByTimestamp sampleLib
       [\<lparr>Timestamp = Time 63897249600 0, Latitude = 0x4008000000000000, Longitude = 0x4008000000000000,
          Title = [], Description = []\<rparr>,
        \<lparr>Timestamp = Time 63897242400 0, Latitude = 0x3FF0000000000000, Longitude = 0x3FF0000000000000,
          Title = [], Description = []\<rparr>,
        \<lparr>Timestamp = Time 63897246000 0, Latitude = 0x4000000000000000, Longitude = 0x4000000000000000,
          Title = [], Description = []\<rparr>])"
proof -
  have e: "SortByTimestamp sampleLib
       [\<lparr>Timestamp = Time 63897249600 0, Latitude = 0x4008000000000000, Longitude = 0x4008000000000000,
          Title = [], Description = []\<rparr>,
        \<lparr>Timestamp = Time 63897242400 0, Latitude = 0x3FF0000000000000, Longitude = 0x3FF0000000000000,
          Title = [], Description = []\<rparr>,
        \<lparr>Timestamp = Time 63897246000 0, Latitude = 0x4000000000000000, Longitude = 0x4000000000000000,
          Title = [], Description = []\<rparr>]
     = [\<lparr>Timestamp = Time 63897242400 0, Latitude = 0x3FF0000000000000, Longitude = 0x3FF0000000000000,
          Title = [], Description = []\<rparr>,
        \<lparr>Timestamp = Time 63897246000 0, Latitude = 0x4000000000000000, Longitude = 0x4000000000000000,
          Title = [], Description = []\<rparr>,
        \<lparr>Timestamp = Time 63897249600 0, Latitude = 0x4008000000000000, Longitude = 0x4008000000000000,
          Title = [], Description = []\<rparr>]"
    by (simp add: SortByTimestamp_def sampleLib_def insertionSort_def Before_def)
  show ?thesis
    using SortByTimestamp_sorted [OF sampleLib_contract] sampleLib_contract e by blast
qed

end
